theory Spec2Isabelle
  imports Complex_Main
begin

section \<open>The self-learning search engine of the rental service\<close>

text \<open>
  This theory embeds the class \<open>SelfLearningAIEngine\<close> of
  \<^verbatim>\<open>client/src/components/Filters.tsx\<close> (the part of that file after the
  \<open>Filters\<close> component) and proves properties of its scoring, ranking and
  learning operations.

  Conventions of the embedding.
  \<^item> A JavaScript string is the list of its UTF-16 code units (\<open>length\<close>,
    \<open>charAt\<close>, \<open>includes\<close>, \<open>split\<close> and the regular expressions of the
    source all work on code units).
  \<^item> A JavaScript \<open>number\<close> of a listing, a score or a stored count is a rational
    (\<open>rat\<close>); counts and lengths are naturals. The source only adds, subtracts,
    multiplies, divides and compares, so the model is exact arithmetic where the
    run time rounds to a double. A feedback rating is a \<open>number\<close> that a caller
    passes unchecked, so there the infinities and \<open>NaN\<close> are values too, and a
    feature weight can become \<open>NaN\<close> (see the types \<open>number\<close> and \<open>weight\<close>).
  \<^item> A \<open>Map\<close> is an association list in insertion order with distinct keys.
  \<^item> The engine object is a record that every operation takes and returns.
\<close>

subsection \<open>Strings\<close>

type_synonym jstring = "nat list"

abbreviation str :: "string \<Rightarrow> jstring" where
  "str s \<equiv> map of_char s"

text \<open>The code units that \<open>\s\<close> and \<open>trim\<close> treat as white space
  (ECMAScript WhiteSpace and LineTerminator).\<close>

definition is_space :: "nat \<Rightarrow> bool" where
  "is_space c =
     (c \<in> set [0x9, 0xA, 0xB, 0xC, 0xD, 0x20, 0xA0, 0x1680, 0x2028, 0x2029,
                0x202F, 0x205F, 0x3000, 0xFEFF]
      \<or> (0x2000 \<le> c \<and> c \<le> 0x200A))"

text \<open>\<open>\d\<close> matches the ten ASCII digits.\<close>

definition is_digit :: "nat \<Rightarrow> bool" where
  "is_digit c = (0x30 \<le> c \<and> c \<le> 0x39)"

text \<open>
  \<open>String.prototype.toLowerCase\<close> is a function of the run time. The model
  lower-cases the capitals of Basic Latin, Latin-1 and Cyrillic (the alphabets
  of the keyword tables below) and leaves every other code unit as it is.
\<close>

definition lower_unit :: "nat \<Rightarrow> nat" where
  "lower_unit c =
     (if 0x41 \<le> c \<and> c \<le> 0x5A then c + 0x20
      else if 0xC0 \<le> c \<and> c \<le> 0xDE \<and> c \<noteq> 0xD7 then c + 0x20
      else if 0x410 \<le> c \<and> c \<le> 0x42F then c + 0x20
      else if 0x400 \<le> c \<and> c \<le> 0x40F then c + 0x50
      else c)"

definition toLowerCase :: "jstring \<Rightarrow> jstring" where
  "toLowerCase s = map lower_unit s"

definition trim :: "jstring \<Rightarrow> jstring" where
  "trim s = rev (dropWhile is_space (rev (dropWhile is_space s)))"

fun startsWith :: "jstring \<Rightarrow> jstring \<Rightarrow> bool" where
  "startsWith hay [] = True"
| "startsWith [] (n # needle) = False"
| "startsWith (h # hay) (n # needle) = (h = n \<and> startsWith hay needle)"

text \<open>\<open>hay.includes(needle)\<close>: the needle occurs as a contiguous run.\<close>

fun includes_str :: "jstring \<Rightarrow> jstring \<Rightarrow> bool" where
  "includes_str [] needle = (needle = [])"
| "includes_str (h # hay) needle = (startsWith (h # hay) needle \<or> includes_str hay needle)"

text \<open>
  \<open>s.split(/\s+/)\<close>: the pieces between maximal runs of white space. The empty
  string gives one empty piece; white space at either end gives an empty piece
  there.
\<close>

function splitWhitespace :: "jstring \<Rightarrow> jstring list" where
  "splitWhitespace [] = [[]]"
| "splitWhitespace (c # cs) =
     (if is_space c then [] # splitWhitespace (dropWhile is_space cs)
      else (case splitWhitespace cs of
              [] \<Rightarrow> [[c]]
            | w # ws \<Rightarrow> (c # w) # ws))"
  by pat_completeness auto
termination
  by (relation "measure length") (auto simp: length_dropWhile_le less_Suc_eq_le)

text \<open>\<open>s.match(/\d+/g)\<close>: the maximal runs of digits, from left to right. The
  source's \<open>null\<close> (no match) is the empty list.\<close>

function digitRuns :: "jstring \<Rightarrow> jstring list" where
  "digitRuns [] = []"
| "digitRuns (c # cs) =
     (if is_digit c then (c # takeWhile is_digit cs) # digitRuns (dropWhile is_digit cs)
      else digitRuns cs)"
  by pat_completeness auto
termination
  by (relation "measure length") (auto simp: length_dropWhile_le less_Suc_eq_le)

text \<open>\<open>parseInt\<close> on a run of digits: its decimal value.\<close>

definition parseInt :: "jstring \<Rightarrow> nat" where
  "parseInt numStr = fold (\<lambda>c n. 10 * n + (c - 0x30)) numStr 0"

subsection \<open>String similarity\<close>

text \<open>
  Assignment \<open>xs[i] = v\<close> to a JavaScript array: inside the array it replaces
  the element, at \<open>i = length\<close> it appends, and beyond that the run time leaves
  holes, which the model fills with \<open>hole\<close>. The loops of
  \<open>levenshteinDistance\<close> never write beyond the length.
\<close>

definition array_set :: "'a \<Rightarrow> 'a list \<Rightarrow> nat \<Rightarrow> 'a \<Rightarrow> 'a list" where
  "array_set hole xs i v =
     (if i < length xs then xs[i := v]
      else xs @ replicate (i - length xs) hole @ [v])"

text \<open>\<open>matrix[i][j] = v\<close>\<close>

definition cell_set :: "nat list list \<Rightarrow> nat \<Rightarrow> nat \<Rightarrow> nat \<Rightarrow> nat list list" where
  "cell_set matrix i j v = matrix[i := array_set 0 (matrix ! i) j v]"

text \<open>The body of the two nested loops of \<open>levenshteinDistance\<close>.\<close>

definition lev_cell :: "jstring \<Rightarrow> jstring \<Rightarrow> nat \<Rightarrow> nat \<Rightarrow> nat list list \<Rightarrow> nat list list" where
  "lev_cell str1 str2 i j matrix =
     (if str2 ! (i - 1) = str1 ! (j - 1)
      then cell_set matrix i j (matrix ! (i - 1) ! (j - 1))
      else cell_set matrix i j
             (min (min (matrix ! (i - 1) ! (j - 1) + 1) (matrix ! i ! (j - 1) + 1))
                  (matrix ! (i - 1) ! j + 1)))"

text \<open>
  \<open>levenshteinDistance\<close>: the first loop makes row \<open>i\<close> the array \<open>[i]\<close>, the
  second fills row 0 with \<open>0 .. str1.length\<close>, the nested loops fill the rest
  row by row, and the result is the last cell.
\<close>

definition levenshteinDistance :: "jstring \<Rightarrow> jstring \<Rightarrow> nat" where
  "levenshteinDistance str1 str2 =
     (let matrix0 = fold (\<lambda>i matrix. array_set [] matrix i [i]) [0..<Suc (length str2)] [];
          matrix1 = fold (\<lambda>j matrix. cell_set matrix 0 j j) [0..<Suc (length str1)] matrix0;
          matrix2 = fold (\<lambda>i matrix. fold (lev_cell str1 str2 i) [1..<Suc (length str1)] matrix)
                         [1..<Suc (length str2)] matrix1
      in matrix2 ! length str2 ! length str1)"

definition calculateStringSimilarity :: "jstring \<Rightarrow> jstring \<Rightarrow> rat" where
  "calculateStringSimilarity str1 str2 =
     (let longer = (if length str1 > length str2 then str1 else str2);
          shorter = (if length str1 > length str2 then str2 else str1)
      in if length longer = 0 then 1
         else (of_nat (length longer) - of_nat (levenshteinDistance longer shorter))
              / of_nat (length longer))"

text \<open>
  The edit distance in the words of the specification: the least number of
  insertions, deletions and substitutions, each of cost 1, that turn one string
  into the other, by the classic recurrence on the first characters.
\<close>

fun edit_distance :: "jstring \<Rightarrow> jstring \<Rightarrow> nat" where
  "edit_distance [] ys = length ys"
| "edit_distance (x # xs) [] = Suc (length xs)"
| "edit_distance (x # xs) (y # ys) =
     min (min (edit_distance xs (y # ys) + 1) (edit_distance (x # xs) ys + 1))
         (edit_distance xs ys + (if x = y then 0 else 1))"

text \<open>The distance between a prefix of \<open>str2\<close> and a prefix of \<open>str1\<close>: what
  cell \<open>(i, j)\<close> of the matrix is meant to hold.\<close>

definition prefix_distance :: "jstring \<Rightarrow> jstring \<Rightarrow> nat \<Rightarrow> nat \<Rightarrow> nat" where
  "prefix_distance str1 str2 i j = edit_distance (take i str2) (take j str1)"

subsection \<open>Data\<close>

text \<open>The interface \<open>Listing\<close> of \<^verbatim>\<open>types\<close>. The fields \<open>id\<close>, \<open>type\<close> and
  \<open>floor\<close> carry the prefix \<open>listing_\<close> here, since the plain names are taken
  in HOL. A field name is a constant, so a parameter that the source calls
  \<open>query\<close>, \<open>area\<close> or \<open>price\<close> is written with a prime below.\<close>

text \<open>
  A number that a caller passes to the engine: a rational, an infinity or
  \<open>NaN\<close>. A feature weight is a rational or \<open>NaN\<close>: the engine starts with
  rationals, and what \<open>updateWeightsBasedOnFeedback\<close> stores is the result of
  \<open>Math.max(5, Math.min(150, ...))\<close>, which is never infinite.
\<close>

datatype number = Num rat | PlusInfinity | MinusInfinity | NaN

datatype weight = Weight rat | WeightNaN

record Listing =
  listing_id :: jstring
  title :: jstring
  description :: jstring
  area :: rat
  price :: rat
  location :: jstring
  listing_type :: jstring
  listing_floor :: rat
  totalFloors :: rat
  hasParking :: bool
  hasStorage :: bool
  contactName :: jstring
  contactPhone :: jstring
  contactEmail :: jstring
  images :: "jstring list"
  createdAt :: jstring
  isActive :: bool
  coordinates :: "(rat \<times> rat) option"

record SearchResult =
  listing :: Listing
  score :: rat
  matchedFeatures :: "jstring list"

record UserInteraction =
  query :: jstring
  timestamp :: nat
  resultsCount :: nat
  clickedListings :: "jstring list"
  feedbackRating :: "number option"
  sessionId :: jstring

record LearningData =
  queryPatterns :: "(jstring \<times> rat) list"
  successfulQueries :: "UserInteraction list"
  featureWeights :: "(jstring \<times> weight) list"
  userPreferences :: "(jstring \<times> rat) list"
  contextualMappings :: "(jstring \<times> jstring list) list"

text \<open>
  The engine object: its three fields, and the item \<open>ai_learning_data\<close> of
  \<open>localStorage\<close> that \<open>saveLearningData\<close> writes (\<open>None\<close> while nothing is
  stored). \<open>storageAccepts\<close> says for which values \<open>localStorage.setItem\<close>
  succeeds; for the others it throws and \<open>saveLearningData\<close> catches it.
\<close>

record Engine =
  learningData :: LearningData
  currentSessionId :: jstring
  currentQuery :: jstring
  localStorage :: "LearningData option"
  storageAccepts :: "LearningData \<Rightarrow> bool"

text \<open>The only exception that the engine can raise (see
  \<open>getLearnedTypeKeywords\<close>).\<close>

datatype error = TypeError

subsection \<open>Maps\<close>

text \<open>\<open>m.get(k)\<close>, and \<open>m.set(k, v)\<close>: an existing key keeps its place, a new
  one goes to the end.\<close>

definition map_get :: "('k \<times> 'v) list \<Rightarrow> 'k \<Rightarrow> 'v option" where
  "map_get m k = map_of m k"

fun map_set :: "('k \<times> 'v) list \<Rightarrow> 'k \<Rightarrow> 'v \<Rightarrow> ('k \<times> 'v) list" where
  "map_set [] k v = [(k, v)]"
| "map_set ((k', v') # m) k v = (if k' = k then (k, v) # m else (k', v') # map_set m k v)"

text \<open>\<open>v || d\<close> for a number \<open>v\<close> that may be \<open>undefined\<close>: the default also
  replaces 0, and for a feature weight it also replaces \<open>NaN\<close>.\<close>

definition value_or_default :: "rat option \<Rightarrow> rat \<Rightarrow> rat" where
  "value_or_default v d = (case v of None \<Rightarrow> d | Some x \<Rightarrow> if x = 0 then d else x)"

definition or_default :: "weight option \<Rightarrow> rat \<Rightarrow> rat" where
  "or_default v d =
     (case v of
        None \<Rightarrow> d
      | Some (Weight x) \<Rightarrow> if x = 0 then d else x
      | Some WeightNaN \<Rightarrow> d)"

subsection \<open>Loading and saving\<close>

definition defaultFeatureWeights :: "(jstring \<times> weight) list" where
  "defaultFeatureWeights =
     [(str ''exact_match'', Weight 100),
      (str ''type_match'', Weight 50),
      (str ''size_match'', Weight 30),
      (str ''price_match'', Weight 30),
      (str ''feature_match'', Weight 25),
      (str ''location_match'', Weight 20),
      (str ''number_match'', Weight 40),
      (str ''word_match'', Weight 20)]"

definition defaultLearningData :: LearningData where
  "defaultLearningData =
     \<lparr>queryPatterns = [], successfulQueries = [], featureWeights = defaultFeatureWeights,
      userPreferences = [], contextualMappings = []\<rparr>"

text \<open>\<open>loadLearningData\<close>: what was saved, or the defaults when nothing is
  stored (a stored text that does not parse also gives the defaults).\<close>

definition loadLearningData :: "LearningData option \<Rightarrow> LearningData" where
  "loadLearningData saved = (case saved of Some parsed \<Rightarrow> parsed | None \<Rightarrow> defaultLearningData)"

text \<open>The constructor; the session identifier comes from the clock and the
  random generator.\<close>

definition newEngine :: "jstring \<Rightarrow> LearningData option \<Rightarrow> (LearningData \<Rightarrow> bool) \<Rightarrow> Engine" where
  "newEngine sid stored accepts =
     \<lparr>learningData = loadLearningData stored, currentSessionId = sid, currentQuery = [],
      localStorage = stored, storageAccepts = accepts\<rparr>"

text \<open>\<open>xs.slice(-n)\<close>: the last \<open>n\<close> elements.\<close>

definition slice_last :: "nat \<Rightarrow> 'a list \<Rightarrow> 'a list" where
  "slice_last n xs = drop (length xs - n) xs"

definition saveLearningData :: "Engine \<Rightarrow> Engine" where
  "saveLearningData e =
     (let toSave = (learningData e)
            \<lparr>successfulQueries := slice_last 1000 (successfulQueries (learningData e))\<rparr>
      in if storageAccepts e toSave then e\<lparr>localStorage := Some toSave\<rparr> else e)"

subsection \<open>Learning\<close>

definition analyzeSuccessfulQuery :: "LearningData \<Rightarrow> UserInteraction \<Rightarrow> LearningData" where
  "analyzeSuccessfulQuery ld interaction =
     (let query' = toLowerCase (query interaction);
          words = filter (\<lambda>word. length word > 2) (splitWhitespace query');
          ld1 = fold (\<lambda>word ld.
                   ld\<lparr>queryPatterns :=
                        map_set (queryPatterns ld) word
                          (value_or_default (map_get (queryPatterns ld) word) 0 + 1)\<rparr>)
                 words ld
      in if length (clickedListings interaction) > 0
         then ld1\<lparr>contextualMappings :=
                    map_set (contextualMappings ld1) query' (clickedListings interaction)\<rparr>
         else ld1)"

text \<open>\<open>(rating - 3) * 5\<close>: an infinite rating gives the same infinity, \<open>NaN\<close>
  gives \<open>NaN\<close>.\<close>

fun feedbackAdjustment :: "number \<Rightarrow> number" where
  "feedbackAdjustment (Num rating) = Num ((rating - 3) * 5)"
| "feedbackAdjustment PlusInfinity = PlusInfinity"
| "feedbackAdjustment MinusInfinity = MinusInfinity"
| "feedbackAdjustment NaN = NaN"

text \<open>\<open>weight + adjustment\<close>: \<open>NaN\<close> on either side gives \<open>NaN\<close>.\<close>

fun plus_adjustment :: "weight \<Rightarrow> number \<Rightarrow> number" where
  "plus_adjustment (Weight w) (Num adjustment) = Num (w + adjustment)"
| "plus_adjustment (Weight w) PlusInfinity = PlusInfinity"
| "plus_adjustment (Weight w) MinusInfinity = MinusInfinity"
| "plus_adjustment (Weight w) NaN = NaN"
| "plus_adjustment WeightNaN adjustment = NaN"

text \<open>\<open>Math.max(5, Math.min(150, x))\<close>: both functions return \<open>NaN\<close> when an
  argument is \<open>NaN\<close>; plus infinity is cut to 150 and minus infinity to 5.\<close>

fun clamp_5_150 :: "number \<Rightarrow> weight" where
  "clamp_5_150 (Num x) = Weight (max 5 (min 150 x))"
| "clamp_5_150 PlusInfinity = Weight 150"
| "clamp_5_150 MinusInfinity = Weight 5"
| "clamp_5_150 NaN = WeightNaN"

text \<open>\<open>updateWeightsBasedOnFeedback\<close>: \<open>forEach\<close> visits every entry of the map
  once and \<open>set\<close> replaces the value of that entry. The source reads the
  rating as \<open>interaction.feedbackRating!\<close>; its only caller has checked that it
  is defined, and hands it over here.\<close>

definition updateWeightsBasedOnFeedback :: "LearningData \<Rightarrow> number \<Rightarrow> LearningData" where
  "updateWeightsBasedOnFeedback ld rating =
     (let adjustment = feedbackAdjustment rating
      in ld\<lparr>featureWeights :=
              map (\<lambda>(feature, weight). (feature, clamp_5_150 (plus_adjustment weight adjustment)))
                  (featureWeights ld)\<rparr>)"

definition recordInteraction :: "Engine \<Rightarrow> UserInteraction \<Rightarrow> Engine" where
  "recordInteraction e interaction =
     (let ld0 = learningData e;
          ld1 = ld0\<lparr>successfulQueries := successfulQueries ld0 @ [interaction]\<rparr>;
          ld2 = (if length (clickedListings interaction) > 0
                 then analyzeSuccessfulQuery ld1 interaction else ld1);
          ld3 = (case feedbackRating interaction of
                   Some rating \<Rightarrow> updateWeightsBasedOnFeedback ld2 rating
                 | None \<Rightarrow> ld2)
      in saveLearningData (e\<lparr>learningData := ld3\<rparr>))"

text \<open>\<open>recordClick\<close>. The source pushes the identifier onto the array that the
  map holds; where that array is the \<open>clickedListings\<close> of a logged interaction
  (\<open>analyzeSuccessfulQuery\<close> stores that very array), the log entry grows with
  it. The model stores the longer list in the map and leaves the log as it is.\<close>

definition recordClick :: "Engine \<Rightarrow> jstring \<Rightarrow> Engine" where
  "recordClick e listingId =
     (if currentQuery e \<noteq> [] then
        (let ld = learningData e;
             existing = (case map_get (contextualMappings ld) (currentQuery e) of
                           Some ids \<Rightarrow> ids | None \<Rightarrow> [])
         in if listingId \<notin> set existing
            then saveLearningData
                   (e\<lparr>learningData :=
                        ld\<lparr>contextualMappings :=
                             map_set (contextualMappings ld) (currentQuery e)
                               (existing @ [listingId])\<rparr>\<rparr>)
            else e)
      else e)"

text \<open>\<open>recordFeedback\<close>; \<open>now\<close> is the value of \<open>Date.now()\<close>.\<close>

definition recordFeedback :: "Engine \<Rightarrow> nat \<Rightarrow> number \<Rightarrow> Engine" where
  "recordFeedback e now rating =
     (if currentQuery e \<noteq> [] then
        recordInteraction e
          \<lparr>query = currentQuery e, timestamp = now, resultsCount = 0, clickedListings = [],
           feedbackRating = Some rating, sessionId = currentSessionId e\<rparr>
      else e)"

subsection \<open>Scoring\<close>

text \<open>
  The keyword tables of the source are Russian words; they are written here as
  code units. \<open>baseKeywords\<close> maps the categories magazin (shop), restoran
  (restaurant), ofis (office) and sklad (warehouse) to their keywords:
  magazin, torgovlya, prodazha, riteil, roznitsa; restoran, kafe, bar,
  obshchepit, eda, pitanie; ofis, rabota, biznes, delovoi, it; sklad,
  khranenie, logistika, tovary.
\<close>

definition baseKeywords :: "(jstring \<times> jstring list) list" where
  "baseKeywords =
     [([0x43C, 0x430, 0x433, 0x430, 0x437, 0x438, 0x43D],
       [[0x43C, 0x430, 0x433, 0x430, 0x437, 0x438, 0x43D],
        [0x442, 0x43E, 0x440, 0x433, 0x43E, 0x432, 0x43B, 0x44F],
        [0x43F, 0x440, 0x43E, 0x434, 0x430, 0x436, 0x430],
        [0x440, 0x438, 0x442, 0x435, 0x439, 0x43B],
        [0x440, 0x43E, 0x437, 0x43D, 0x438, 0x446, 0x430]]),
      ([0x440, 0x435, 0x441, 0x442, 0x43E, 0x440, 0x430, 0x43D],
       [[0x440, 0x435, 0x441, 0x442, 0x43E, 0x440, 0x430, 0x43D],
        [0x43A, 0x430, 0x444, 0x435],
        [0x431, 0x430, 0x440],
        [0x43E, 0x431, 0x449, 0x435, 0x43F, 0x438, 0x442],
        [0x435, 0x434, 0x430],
        [0x43F, 0x438, 0x442, 0x430, 0x43D, 0x438, 0x435]]),
      ([0x43E, 0x444, 0x438, 0x441],
       [[0x43E, 0x444, 0x438, 0x441],
        [0x440, 0x430, 0x431, 0x43E, 0x442, 0x430],
        [0x431, 0x438, 0x437, 0x43D, 0x435, 0x441],
        [0x434, 0x435, 0x43B, 0x43E, 0x432, 0x43E, 0x439],
        str ''it'']),
      ([0x441, 0x43A, 0x43B, 0x430, 0x434],
       [[0x441, 0x43A, 0x43B, 0x430, 0x434],
        [0x445, 0x440, 0x430, 0x43D, 0x435, 0x43D, 0x438, 0x435],
        [0x43B, 0x43E, 0x433, 0x438, 0x441, 0x442, 0x438, 0x43A, 0x430],
        [0x442, 0x43E, 0x432, 0x430, 0x440, 0x44B]])]"

text \<open>
  \<open>getLearnedTypeKeywords\<close>. \<open>baseKeywords[typeLower]\<close> is a property lookup on
  an object literal, so a name that every object inherits is found too: of
  those, \<open>constructor\<close> and \<open>__proto__\<close> are their own lower case. What is found
  then is not an array, and the \<open>push\<close> of this function or the \<open>some\<close> of its
  caller raises a \<open>TypeError\<close>.
\<close>

definition getLearnedTypeKeywords :: "LearningData \<Rightarrow> jstring \<Rightarrow> error + jstring list" where
  "getLearnedTypeKeywords ld type =
     (let typeLower = toLowerCase type in
      if typeLower = str ''constructor'' \<or> typeLower = str ''__proto__'' then Inl TypeError
      else
        let keywords = (case map_of baseKeywords typeLower of Some ks \<Rightarrow> ks | None \<Rightarrow> [])
        in Inr (keywords @
                map fst (filter (\<lambda>(word, frequency).
                                   frequency > 5 \<and> includes_str word (take 4 typeLower))
                                (queryPatterns ld))))"

text \<open>\<open>getLearnedSizePreferences\<close>: malenkii (small) 0 to 50, nebolshoi (smallish)
  50 to 100, srednii (medium) 100 to 200, bolshoi (large) 200 to 500.\<close>

definition getLearnedSizePreferences :: "(jstring \<times> rat \<times> rat) list" where
  "getLearnedSizePreferences =
     [([0x43C, 0x430, 0x43B, 0x435, 0x43D, 0x44C, 0x43A, 0x438, 0x439], 0, 50),
      ([0x43D, 0x435, 0x431, 0x43E, 0x43B, 0x44C, 0x448, 0x43E, 0x439], 50, 100),
      ([0x441, 0x440, 0x435, 0x434, 0x43D, 0x438, 0x439], 100, 200),
      ([0x431, 0x43E, 0x43B, 0x44C, 0x448, 0x43E, 0x439], 200, 500)]"

text \<open>The loop over the numbers of the query in \<open>calculateAdaptiveSizeScore\<close>:
  \<open>Some\<close> is a \<open>return\<close> from inside the loop, \<open>None\<close> its end.\<close>

fun sizeScan :: "rat \<Rightarrow> jstring list \<Rightarrow> rat option" where
  "sizeScan area' [] = None"
| "sizeScan area' (numStr # numbers) =
     (let num = parseInt numStr in
      if num \<le> 1000 then
        (let diff = \<bar>area' - of_nat num\<bar> in
         if diff \<le> 20 then Some 40
         else if diff \<le> 50 then Some 20
         else if diff \<le> 100 then Some 10
         else sizeScan area' numbers)
      else sizeScan area' numbers)"

definition calculateAdaptiveSizeScore :: "jstring \<Rightarrow> rat \<Rightarrow> rat" where
  "calculateAdaptiveSizeScore query' area' =
     (case sizeScan area' (digitRuns query') of
        Some found \<Rightarrow> found
      | None \<Rightarrow>
          if \<exists>(sizeWord, lo, hi) \<in> set getLearnedSizePreferences.
               includes_str query' sizeWord \<and> area' \<ge> lo \<and> area' \<le> hi
          then 30 else 0)"

fun priceScan :: "rat \<Rightarrow> jstring list \<Rightarrow> rat option" where
  "priceScan price' [] = None"
| "priceScan price' (numStr # numbers) =
     (let num = parseInt numStr in
      if num > 1000 then
        (let diff = \<bar>price' - of_nat num\<bar> in
         if diff \<le> of_nat num * (1 / 10) then Some 40
         else if diff \<le> of_nat num * (2 / 10) then Some 20
         else if diff \<le> of_nat num * (3 / 10) then Some 10
         else priceScan price' numbers)
      else priceScan price' numbers)"

text \<open>The price words: deshevo (cheap), nedorogo (inexpensive), dorogo
  (expensive), premium. The first one that the query contains decides.\<close>

definition priceWords :: "jstring list" where
  "priceWords =
     [[0x434, 0x435, 0x448, 0x435, 0x432, 0x43E],
      [0x43D, 0x435, 0x434, 0x43E, 0x440, 0x43E, 0x433, 0x43E],
      [0x434, 0x43E, 0x440, 0x43E, 0x433, 0x43E],
      [0x43F, 0x440, 0x435, 0x43C, 0x438, 0x443, 0x43C]]"

definition calculateAdaptivePriceScore :: "LearningData \<Rightarrow> jstring \<Rightarrow> rat \<Rightarrow> rat" where
  "calculateAdaptivePriceScore ld query' price' =
     (case priceScan price' (digitRuns query') of
        Some found \<Rightarrow> found
      | None \<Rightarrow>
          (case find (\<lambda>word. includes_str query' word) priceWords of
             Some word \<Rightarrow>
               (let preference = value_or_default (map_get (userPreferences ld) (str ''price_'' @ word)) 0
                in min 30 (preference / 10))
           | None \<Rightarrow> 0))"

text \<open>\<open>calculateFeatureScore\<close>. The keywords: parkovka, parking; sklad,
  khranenie; tsentr (centre); metro; pervyi etazh, 1 etazh (first floor).\<close>

definition calculateFeatureScore :: "LearningData \<Rightarrow> jstring \<Rightarrow> Listing \<Rightarrow> rat" where
  "calculateFeatureScore ld query' l =
     (let features =
            [([[0x43F, 0x430, 0x440, 0x43A, 0x43E, 0x432, 0x43A, 0x430], [0x43F, 0x430, 0x440, 0x43A, 0x438, 0x43D, 0x433]], hasParking l),
             ([[0x441, 0x43A, 0x43B, 0x430, 0x434], [0x445, 0x440, 0x430, 0x43D, 0x435, 0x43D, 0x438, 0x435]], hasStorage l),
             ([[0x446, 0x435, 0x43D, 0x442, 0x440]], includes_str (toLowerCase (location l)) [0x446, 0x435, 0x43D, 0x442, 0x440]),
             ([[0x43C, 0x435, 0x442, 0x440, 0x43E]], includes_str (toLowerCase (location l)) [0x43C, 0x435, 0x442, 0x440, 0x43E]),
             ([[0x43F, 0x435, 0x440, 0x432, 0x44B, 0x439, 0x20, 0x44D, 0x442, 0x430, 0x436],
               [0x31, 0x20, 0x44D, 0x442, 0x430, 0x436]], listing_floor l = 1)]
      in fold (\<lambda>(keywords, has) score.
                 if (\<exists>keyword \<in> set keywords. includes_str query' keyword) \<and> has
                 then (let featureName = hd keywords;
                           learnedWeight =
                             value_or_default (map_get (userPreferences ld) (str ''feature_'' @ featureName)) 1
                       in score + 25 * learnedWeight)
                 else score)
              features 0)"

definition calculateContextualScore :: "LearningData \<Rightarrow> jstring \<Rightarrow> Listing \<Rightarrow> rat" where
  "calculateContextualScore ld query' l =
     (let similarQueries =
            filter (\<lambda>savedQuery. calculateStringSimilarity query' savedQuery > 7 / 10)
                   (map fst (contextualMappings ld))
      in if \<exists>similarQuery \<in> set similarQueries.
              listing_id l \<in> set (case map_get (contextualMappings ld) similarQuery of
                                     Some ids \<Rightarrow> ids | None \<Rightarrow> [])
         then 50 else 0)"

definition calculateSemanticSimilarity :: "jstring \<Rightarrow> jstring \<Rightarrow> rat" where
  "calculateSemanticSimilarity query' text =
     (let queryWords = splitWhitespace query';
          textWords = splitWhitespace text;
          matchCount =
            length (filter (\<lambda>qWord.
                      length qWord > 2 \<and>
                      (\<exists>tWord \<in> set textWords.
                         includes_str tWord qWord \<or> includes_str qWord tWord \<or>
                         calculateStringSimilarity qWord tWord > 8 / 10))
                    queryWords)
      in (of_nat matchCount / of_nat (length queryWords)) * 30)"

text \<open>The step that every factor of \<open>calculateAdaptiveScore\<close> takes:
  \<open>if (fires) { score += amount; matchedFeatures.push(name) }\<close>.\<close>

definition addFeature :: "rat \<times> jstring list \<Rightarrow> bool \<Rightarrow> rat \<Rightarrow> jstring \<Rightarrow> rat \<times> jstring list" where
  "addFeature acc fires amount name =
     (if fires then (fst acc + amount, snd acc @ [name]) else acc)"

definition calculateAdaptiveScore :: "LearningData \<Rightarrow> jstring \<Rightarrow> Listing \<Rightarrow> error + SearchResult" where
  "calculateAdaptiveScore ld query' l =
     (let text = toLowerCase (title l @ str '' '' @ description l @ str '' '' @ location l
                              @ str '' '' @ listing_type l);
          weights = featureWeights ld;
          r1 = addFeature (0, []) (includes_str text query')
                 (or_default (map_get weights (str ''exact_match'')) 100) (str ''exact_match'')
      in case getLearnedTypeKeywords ld (listing_type l) of
           Inl err \<Rightarrow> Inl err
         | Inr typeKeywords \<Rightarrow>
            (let r2 = addFeature r1 (\<exists>keyword \<in> set typeKeywords. includes_str query' keyword)
                        (or_default (map_get weights (str ''type_match'')) 50) (str ''type_match'');
                 sizeScore = calculateAdaptiveSizeScore query' (area l);
                 r3 = addFeature r2 (sizeScore > 0)
                        (sizeScore * or_default (map_get weights (str ''size_match'')) 30 / 30)
                        (str ''size_match'');
                 priceScore = calculateAdaptivePriceScore ld query' (price l);
                 r4 = addFeature r3 (priceScore > 0)
                        (priceScore * or_default (map_get weights (str ''price_match'')) 30 / 30)
                        (str ''price_match'');
                 featureScore = calculateFeatureScore ld query' l;
                 r5 = addFeature r4 (featureScore > 0)
                        (featureScore * or_default (map_get weights (str ''feature_match'')) 25 / 25)
                        (str ''feature_match'');
                 contextScore = calculateContextualScore ld query' l;
                 r6 = addFeature r5 (contextScore > 0) contextScore (str ''context_match'');
                 semanticScore = calculateSemanticSimilarity query' text;
                 r7 = addFeature r6 (semanticScore > 0) semanticScore (str ''semantic_match'')
             in Inr \<lparr>listing = l, score = fst r7, matchedFeatures = snd r7\<rparr>))"

subsection \<open>Ranking\<close>

definition calculateTypeBonus :: "LearningData \<Rightarrow> jstring \<Rightarrow> jstring \<Rightarrow> rat" where
  "calculateTypeBonus ld type query' =
     (let typeFrequency =
            value_or_default (map_get (userPreferences ld) (str ''type_'' @ toLowerCase type)) 0
      in min 20 (typeFrequency / 5))"

definition calculatePopularityScore :: "LearningData \<Rightarrow> jstring \<Rightarrow> rat" where
  "calculatePopularityScore ld listingId =
     (let clickCount =
            fold (\<lambda>interaction count.
                    count + (if listingId \<in> set (clickedListings interaction) then 1 else 0))
                 (successfulQueries ld) (0::nat)
      in min 15 (of_nat clickCount * 2))"

text \<open>The value that the comparator of \<open>applyMLRanking\<close> computes for one
  result (\<open>scoreA\<close>, \<open>scoreB\<close>): the score plus the two bonuses.\<close>

definition finalScore :: "LearningData \<Rightarrow> jstring \<Rightarrow> SearchResult \<Rightarrow> rat" where
  "finalScore ld query' a =
     score a + calculateTypeBonus ld (listing_type (listing a)) query'
             + calculatePopularityScore ld (listing_id (listing a))"

definition rankingComparator :: "LearningData \<Rightarrow> jstring \<Rightarrow> SearchResult \<Rightarrow> SearchResult \<Rightarrow> rat" where
  "rankingComparator ld query' a b = finalScore ld query' b - finalScore ld query' a"

text \<open>
  \<open>Array.prototype.sort\<close> with a comparator is a function of the run time,
  specified to be stable: elements that the comparator does not separate keep
  their order. The model is insertion sort, which puts an element before the
  first one that the comparator does not place before it.
\<close>

fun sort_insert :: "('a \<Rightarrow> 'a \<Rightarrow> rat) \<Rightarrow> 'a \<Rightarrow> 'a list \<Rightarrow> 'a list" where
  "sort_insert cmp x [] = [x]"
| "sort_insert cmp x (y # ys) =
     (if cmp x y \<le> 0 then x # y # ys else y # sort_insert cmp x ys)"

definition array_sort :: "('a \<Rightarrow> 'a \<Rightarrow> rat) \<Rightarrow> 'a list \<Rightarrow> 'a list" where
  "array_sort cmp xs = foldr (sort_insert cmp) xs []"

definition applyMLRanking :: "LearningData \<Rightarrow> SearchResult list \<Rightarrow> jstring \<Rightarrow> SearchResult list" where
  "applyMLRanking ld results query' = array_sort (rankingComparator ld query') results"

text \<open>\<open>listings.map(...)\<close> with a callback that may throw: the first exception
  ends the loop.\<close>

fun array_map :: "('a \<Rightarrow> error + 'b) \<Rightarrow> 'a list \<Rightarrow> error + 'b list" where
  "array_map f [] = Inr []"
| "array_map f (x # xs) =
     (case f x of
        Inl err \<Rightarrow> Inl err
      | Inr y \<Rightarrow> (case array_map f xs of Inl err \<Rightarrow> Inl err | Inr ys \<Rightarrow> Inr (y # ys)))"

text \<open>\<open>search\<close> returns the listings, or raises; either way the query has
  become the current query. (\<open>recordSearchMetrics\<close> only writes to the console.)\<close>

definition search :: "Engine \<Rightarrow> jstring \<Rightarrow> Listing list \<Rightarrow> (error + Listing list) \<times> Engine" where
  "search e query' listings =
     (let e1 = e\<lparr>currentQuery := query'\<rparr>;
          normalizedQuery = trim (toLowerCase query')
      in if normalizedQuery = [] then (Inr listings, e1)
         else
           (case array_map (calculateAdaptiveScore (learningData e1) normalizedQuery) listings of
              Inl err \<Rightarrow> (Inl err, e1)
            | Inr scoredListings \<Rightarrow>
                (let rankedListings = applyMLRanking (learningData e1) scoredListings normalizedQuery
                 in (Inr (map listing (filter (\<lambda>item. score item > 0) rankedListings)), e1))))"

subsection \<open>Sequences of operations\<close>

datatype operation =
    Search jstring "Listing list"
  | RecordClick jstring
  | RecordFeedback nat number
  | RecordInteraction UserInteraction

fun step :: "operation \<Rightarrow> Engine \<Rightarrow> Engine" where
  "step (Search q listings) e = snd (search e q listings)"
| "step (RecordClick listingId) e = recordClick e listingId"
| "step (RecordFeedback now rating) e = recordFeedback e now rating"
| "step (RecordInteraction interaction) e = recordInteraction e interaction"

definition run :: "operation list \<Rightarrow> Engine \<Rightarrow> Engine" where
  "run ops e = fold step ops e"

subsection \<open>Notions of the specification\<close>

text \<open>The invariant of the feature weights: every one lies in \<open>[5, 150]\<close>.\<close>

fun inRange :: "weight \<Rightarrow> bool" where
  "inRange (Weight w) = (5 \<le> w \<and> w \<le> 150)"
| "inRange WeightNaN = False"

definition weightsInRange :: "(jstring \<times> weight) list \<Rightarrow> bool" where
  "weightsInRange weights = (\<forall>(feature, weight) \<in> set weights. inRange weight)"

text \<open>An operation whose rating, if it has one, is not \<open>NaN\<close>.\<close>

fun ratingIsNumber :: "operation \<Rightarrow> bool" where
  "ratingIsNumber (RecordFeedback now rating) = (rating \<noteq> NaN)"
| "ratingIsNumber (RecordInteraction interaction) = (feedbackRating interaction \<noteq> Some NaN)"
| "ratingIsNumber (Search q listings) = True"
| "ratingIsNumber (RecordClick listingId) = True"

text \<open>A listing whose type does not make \<open>getLearnedTypeKeywords\<close> raise.\<close>

definition ordinaryType :: "Listing \<Rightarrow> bool" where
  "ordinaryType l =
     (toLowerCase (listing_type l) \<noteq> str ''constructor''
      \<and> toLowerCase (listing_type l) \<noteq> str ''__proto__'')"

text \<open>The relevance score of a listing for a normalised query, and the final
  score by which the ranking sorts: the relevance score plus the type bonus and
  the popularity bonus.\<close>

definition relevance :: "LearningData \<Rightarrow> jstring \<Rightarrow> Listing \<Rightarrow> rat" where
  "relevance ld query' l =
     (case calculateAdaptiveScore ld query' l of Inr result \<Rightarrow> score result | Inl err \<Rightarrow> 0)"

definition rankingScore :: "LearningData \<Rightarrow> jstring \<Rightarrow> Listing \<Rightarrow> rat" where
  "rankingScore ld query' l =
     relevance ld query' l + calculateTypeBonus ld (listing_type l) query'
       + calculatePopularityScore ld (listing_id l)"

subsection \<open>Example values\<close>

text \<open>A fresh engine on an empty store that accepts every write, a listing
  with every field empty, and an interaction without clicks or rating.\<close>

definition freshEngine :: Engine where
  "freshEngine = newEngine (str ''session_1'') None (\<lambda>toSave. True)"

definition blankListing :: Listing where
  "blankListing =
     \<lparr>listing_id = [], title = [], description = [], area = 0, price = 0, location = [],
      listing_type = [], listing_floor = 0, totalFloors = 0, hasParking = False,
      hasStorage = False, contactName = [], contactPhone = [], contactEmail = [], images = [],
      createdAt = [], isActive = True, coordinates = None\<rparr>"

definition plainInteraction :: UserInteraction where
  "plainInteraction =
     \<lparr>query = str ''office'', timestamp = 0, resultsCount = 0, clickedListings = [],
      feedbackRating = None, sessionId = str ''session_1''\<rparr>"

text \<open>The fresh engine after a search for \<open>office\<close> in an empty catalogue: a
  current query is set and nothing else has changed.\<close>

definition searchedEngine :: Engine where
  "searchedEngine = snd (search freshEngine (str ''office'') [])"

text \<open>Learning data as a store may hold them, with two weights outside
  \<open>[5, 150]\<close>, and the engine that has loaded them, after a search for
  \<open>office\<close>.\<close>

definition storedLearningData :: LearningData where
  "storedLearningData =
     defaultLearningData
       \<lparr>featureWeights := [(str ''exact_match'', Weight 200), (str ''word_match'', Weight 2)]\<rparr>"

definition loadedEngine :: Engine where
  "loadedEngine =
     snd (search (newEngine (str ''session_1'') (Some storedLearningData) (\<lambda>toSave. True))
            (str ''office'') [])"

text \<open>An interaction with a click on listing \<open>b\<close>, the fresh engine after
  recording it, and two listings that differ in their identifier only.\<close>

definition clickInteraction :: UserInteraction where
  "clickInteraction = plainInteraction\<lparr>resultsCount := 2, clickedListings := [str ''b'']\<rparr>"

definition clickedEngine :: Engine where
  "clickedEngine = recordInteraction freshEngine clickInteraction"

definition listingA :: Listing where
  "listingA = blankListing\<lparr>listing_id := str ''a''\<rparr>"

definition listingB :: Listing where
  "listingB = blankListing\<lparr>listing_id := str ''b''\<rparr>"

section \<open>Properties\<close>

subsection \<open>The matrix of \<open>levenshteinDistance\<close> holds the edit distances\<close>

lemma ed_Nil2 [simp]: "edit_distance xs [] = length xs"
  by (cases xs) auto

lemma ed_sym: "edit_distance xs ys = edit_distance ys xs"
  by (induction xs ys rule: edit_distance.induct) (auto simp: min.commute min.left_commute)

lemma ed_refl [simp]: "edit_distance xs xs = 0"
  by (induction xs) auto

lemma ed_le_max: "edit_distance xs ys \<le> max (length xs) (length ys)"
  by (induction xs ys rule: edit_distance.induct) auto

lemma ed_ge_diff: "length xs \<le> edit_distance xs ys + length ys"
  by (induction xs ys rule: edit_distance.induct) auto

lemma ed_snoc2_le: "edit_distance xs ys \<le> edit_distance xs (ys @ [y]) + 1"
proof (induction xs ys rule: edit_distance.induct)
  case (1 ys)
  then show ?case by simp
next
  case (2 x xs)
  show ?case using ed_ge_diff[of "x # xs" "[y]"] by simp
next
  case (3 x xs y' ys)
  then show ?case by auto
qed

lemma ed_snoc1_le: "edit_distance xs ys \<le> edit_distance (xs @ [x]) ys + 1"
  using ed_snoc2_le[of ys xs x] by (simp add: ed_sym)


lemma ed_single: "edit_distance [x] ys = (if x \<in> set ys then length ys - 1 else max 1 (length ys))"
  by (induction ys) (auto simp: min_def max_def neq_Nil_conv)

lemma ed_single2: "edit_distance xs [y] = (if y \<in> set xs then length xs - 1 else max 1 (length xs))"
  using ed_single[of y xs] by (simp add: ed_sym)

lemma min9:
  fixes A :: nat
  shows "min (min (min (min (A+1) (B+1)) (C+p) + 1) (min (min (D+1) (E+1)) (F+p) + 1))
             (min (min (G+1) (H+1)) (I+p) + q)
       = min (min (min (min (A+1) (D+1)) (G+q) + 1) (min (min (B+1) (E+1)) (H+q) + 1))
             (min (min (C+1) (F+1)) (I+q) + p)"
  unfolding min_add_distrib_left
  by (simp only: min.assoc min.commute min.left_commute add.assoc add.commute add.left_commute)

lemma ed_snoc:
  "edit_distance (xs @ [x]) (ys @ [y]) =
     min (min (edit_distance xs (ys @ [y]) + 1) (edit_distance (xs @ [x]) ys + 1))
         (edit_distance xs ys + (if x = y then 0 else 1))"
proof (induction xs ys rule: edit_distance.induct)
  case (1 ys)
  show ?case using length_pos_if_in_set[of x ys] length_pos_if_in_set[of y ys]
    by (simp add: ed_single)
next
  case (2 a xs)
  show ?case using length_pos_if_in_set[of x xs] length_pos_if_in_set[of y xs] length_pos_if_in_set[of y "a # xs"]
    by (simp add: ed_single2)
next
  case (3 a xs b ys)
  have "edit_distance ((a # xs) @ [x]) ((b # ys) @ [y]) =
        min (min (edit_distance (xs @ [x]) ((b # ys) @ [y]) + 1)
                 (edit_distance ((a # xs) @ [x]) (ys @ [y]) + 1))
            (edit_distance (xs @ [x]) (ys @ [y]) + (if a = b then 0 else 1))"
    by simp
  also have "\<dots> = min (min (edit_distance (a # xs) ((b # ys) @ [y]) + 1)
                          (edit_distance ((a # xs) @ [x]) (b # ys) + 1))
                     (edit_distance (a # xs) (b # ys) + (if x = y then 0 else 1))"
    unfolding "3.IH" unfolding append_Cons edit_distance.simps by (rule min9)
  finally show ?case .
qed


lemma prefix_distance_row0: "prefix_distance str1 str2 0 j = min j (length str1)"
  by (simp add: prefix_distance_def min.commute)

lemma prefix_distance_col0: "prefix_distance str1 str2 i 0 = min i (length str2)"
  by (simp add: prefix_distance_def min.commute)

lemma prefix_distance_step:
  assumes "i < length str2" "j < length str1"
  shows "prefix_distance str1 str2 (Suc i) (Suc j) =
     (if str2 ! i = str1 ! j then prefix_distance str1 str2 i j
      else min (min (prefix_distance str1 str2 i j + 1) (prefix_distance str1 str2 (Suc i) j + 1)) (prefix_distance str1 str2 i (Suc j) + 1))"
proof -
  let ?xs = "take i str2" and ?ys = "take j str1"
  have t: "take (Suc i) str2 = ?xs @ [str2 ! i]" "take (Suc j) str1 = ?ys @ [str1 ! j]"
    using assms by (simp_all add: take_Suc_conv_app_nth)
  show ?thesis
  proof (cases "str2 ! i = str1 ! j")
    case True
    have "edit_distance ?xs ?ys \<le> edit_distance ?xs (?ys @ [str1 ! j]) + 1"
         "edit_distance ?xs ?ys \<le> edit_distance (?xs @ [str2 ! i]) ?ys + 1"
      by (rule ed_snoc2_le, rule ed_snoc1_le)
    then show ?thesis using True unfolding prefix_distance_def t ed_snoc by simp
  next
    case False
    then show ?thesis unfolding prefix_distance_def t ed_snoc
      by (simp add: min.assoc min.commute min.left_commute)
  qed
qed

lemma matrix0_eq:
  "fold (\<lambda>i matrix. array_set [] matrix i [i]) [0..<n] [] = map (\<lambda>i. [i]) [0..<n]"
  by (induction n) (simp_all add: array_set_def)

lemma matrix1_eq:
  assumes "matrix \<noteq> []" "matrix ! 0 = [0]"
  shows "fold (\<lambda>j matrix. cell_set matrix 0 j j) [0..<Suc n] matrix = matrix[0 := [0..<Suc n]]"
proof (induction n)
  case 0
  show ?case using assms by (simp add: cell_set_def array_set_def)
next
  case (Suc n)
  have "fold (\<lambda>j matrix. cell_set matrix 0 j j) [0..<Suc (Suc n)] matrix
        = cell_set (matrix[0 := [0..<Suc n]]) 0 (Suc n) (Suc n)"
    using Suc by (simp del: upt_Suc add: upt_Suc_append)
  also have "\<dots> = matrix[0 := [0..<Suc (Suc n)]]"
    using assms(1) by (simp add: cell_set_def array_set_def)
  finally show ?case .
qed

lemma inner_loop:
  assumes i: "0 < i" "i \<le> length str2" "i < length matrix"
    and prev: "matrix ! (i - 1) = map (prefix_distance str1 str2 (i - 1)) [0..<Suc (length str1)]"
    and cur: "matrix ! i = [i]"
    and n: "n \<le> length str1"
  shows "fold (lev_cell str1 str2 i) [1..<Suc n] matrix
         = matrix[i := map (prefix_distance str1 str2 i) [0..<Suc n]]"
  using n
proof (induction n)
  case 0
  have "prefix_distance str1 str2 i 0 = i" using i by (simp add: prefix_distance_col0)
  moreover have "matrix[i := [i]] = matrix" using cur[symmetric] by (simp only: list_update_id)
  ultimately show ?case by simp
next
  case (Suc n)
  let ?m = "matrix[i := map (prefix_distance str1 str2 i) [0..<Suc n]]"
  from Suc have n: "n < length str1" by simp
  obtain i' where i': "i = Suc i'" using i(1) by (cases i) auto
  have fold_eq: "fold (lev_cell str1 str2 i) [1..<Suc (Suc n)] matrix = lev_cell str1 str2 i (Suc n) ?m"
    using Suc by (simp del: upt_Suc add: upt_Suc_append)
  have r1: "?m ! i = map (prefix_distance str1 str2 i) [0..<Suc n]" using i by simp
  have r0: "?m ! (i - 1) = map (prefix_distance str1 str2 (i - 1)) [0..<Suc (length str1)]"
    using i prev by simp
  have c1: "?m ! (i - 1) ! n = prefix_distance str1 str2 i' n"
    unfolding r0 using n i' by (simp del: upt_Suc map_upt_Suc add: nth_map_upt)
  have c2: "?m ! (i - 1) ! Suc n = prefix_distance str1 str2 i' (Suc n)"
    unfolding r0 using n i' by (simp del: upt_Suc map_upt_Suc add: nth_map_upt)
  have c3: "?m ! i ! n = prefix_distance str1 str2 i n"
    unfolding r1 by (simp del: upt_Suc map_upt_Suc add: nth_map_upt)
  have step: "prefix_distance str1 str2 i (Suc n) =
     (if str2 ! i' = str1 ! n then prefix_distance str1 str2 i' n
      else min (min (prefix_distance str1 str2 i' n + 1) (prefix_distance str1 str2 i n + 1)) (prefix_distance str1 str2 i' (Suc n) + 1))"
    unfolding i' using prefix_distance_step[of i' str2 n str1] i n i' by simp
  have "lev_cell str1 str2 i (Suc n) ?m = cell_set ?m i (Suc n) (prefix_distance str1 str2 i (Suc n))"
    unfolding lev_cell_def step using c1 c2 c3 i' by simp
  also have "\<dots> = matrix[i := map (prefix_distance str1 str2 i) [0..<Suc (Suc n)]]"
  proof -
    have "[0..<Suc (Suc n)] = [0..<Suc n] @ [Suc n]" by simp
    then have "map (prefix_distance str1 str2 i) [0..<Suc (Suc n)]
               = map (prefix_distance str1 str2 i) [0..<Suc n] @ [prefix_distance str1 str2 i (Suc n)]"
      by (simp only: map_append list.map)
    then show ?thesis
      using i by (simp add: cell_set_def array_set_def del: upt_Suc map_upt_Suc)
  qed
  finally show ?case using fold_eq by simp
qed

lemma outer_loop:
  assumes k: "k \<le> length str2"
  shows "fold (\<lambda>i matrix. fold (lev_cell str1 str2 i) [1..<Suc (length str1)] matrix)
              [1..<Suc k] ((map (\<lambda>i. [i]) [0..<Suc (length str2)])[0 := [0..<Suc (length str1)]])
         = map (\<lambda>i. if i \<le> k then map (prefix_distance str1 str2 i) [0..<Suc (length str1)] else [i])
               [0..<Suc (length str2)]"
  using k
proof (induction k)
  case 0
  have "map (prefix_distance str1 str2 0) [0..<Suc (length str1)] = [0..<Suc (length str1)]"
    by (rule nth_equalityI) (simp_all add: prefix_distance_row0 nth_map_upt del: upt_Suc map_upt_Suc)
  then show ?case
    by (intro nth_equalityI) (auto simp add: nth_list_update nth_map_upt simp del: upt_Suc map_upt_Suc)
next
  case (Suc k)
  let ?row = "\<lambda>k i. if i \<le> k then map (prefix_distance str1 str2 i) [0..<Suc (length str1)] else [i]"
  let ?m = "map (?row k) [0..<Suc (length str2)]"
  from Suc have k: "Suc k \<le> length str2" by simp
  have "fold (\<lambda>i matrix. fold (lev_cell str1 str2 i) [1..<Suc (length str1)] matrix)
              [1..<Suc (Suc k)] ((map (\<lambda>i. [i]) [0..<Suc (length str2)])[0 := [0..<Suc (length str1)]])
        = fold (lev_cell str1 str2 (Suc k)) [1..<Suc (length str1)] ?m"
    using Suc by (simp del: upt_Suc map_upt_Suc add: upt_Suc_append)
  also have "\<dots> = ?m[Suc k := map (prefix_distance str1 str2 (Suc k)) [0..<Suc (length str1)]]"
  proof (rule inner_loop)
    show "0 < Suc k" by simp
    show "Suc k \<le> length str2" by (rule k)
    show "Suc k < length ?m" using k by simp
    show "?m ! (Suc k - 1) = map (prefix_distance str1 str2 (Suc k - 1)) [0..<Suc (length str1)]"
      using k by (simp del: upt_Suc map_upt_Suc add: nth_map_upt)
    show "?m ! Suc k = [Suc k]"
      using k by (simp del: upt_Suc map_upt_Suc add: nth_map_upt)
    show "length str1 \<le> length str1" by simp
  qed
  also have "\<dots> = map (?row (Suc k)) [0..<Suc (length str2)]"
    using k by (intro nth_equalityI) (auto simp add: nth_list_update nth_map_upt simp del: upt_Suc map_upt_Suc)
  finally show ?case .
qed

lemma levenshteinDistance_correct:
  "levenshteinDistance str1 str2 = edit_distance str2 str1"
proof -
  have m0: "fold (\<lambda>i matrix. array_set [] matrix i [i]) [0..<Suc (length str2)] []
            = map (\<lambda>i. [i]) [0..<Suc (length str2)]"
    by (rule matrix0_eq)
  have m1: "fold (\<lambda>j matrix. cell_set matrix 0 j j) [0..<Suc (length str1)]
              (map (\<lambda>i. [i]) [0..<Suc (length str2)])
            = (map (\<lambda>i. [i]) [0..<Suc (length str2)])[0 := [0..<Suc (length str1)]]"
    by (rule matrix1_eq) (simp_all del: upt_Suc map_upt_Suc add: nth_map_upt)
  have "levenshteinDistance str1 str2 = prefix_distance str1 str2 (length str2) (length str1)"
    unfolding levenshteinDistance_def Let_def m0 m1 outer_loop[OF order_refl]
    by (simp del: upt_Suc map_upt_Suc add: nth_map_upt)
  then show ?thesis by (simp add: prefix_distance_def)
qed

lemma levenshteinDistance_le_longer:
  "levenshteinDistance a b \<le> max (length a) (length b)"
  unfolding levenshteinDistance_correct using ed_le_max[of b a] by (simp add: max.commute)

text \<open>
  Claim C7. For all strings \<open>a\<close> and \<open>b\<close> the similarity lies between 0 and 1
  and is \<open>(max(len a, len b) - levenshtein(a, b)) / max(len a, len b)\<close>, where
  the distance counts insertions, deletions and substitutions at cost 1 each;
  two empty strings have similarity 1, and so has every string with itself.
\<close>

theorem similarity_is_normalised_edit_distance:
  "0 \<le> calculateStringSimilarity a b \<and> calculateStringSimilarity a b \<le> 1
   \<and> calculateStringSimilarity a b =
       (if max (length a) (length b) = 0 then 1
        else (of_nat (max (length a) (length b)) - of_nat (edit_distance a b))
             / of_nat (max (length a) (length b)))
   \<and> calculateStringSimilarity a a = 1
   \<and> calculateStringSimilarity [] [] = 1"
proof -
  let ?m = "max (length a) (length b)"
  have le: "edit_distance a b \<le> ?m" by (rule ed_le_max)
  have eq: "calculateStringSimilarity a b =
       (if ?m = 0 then 1 else (of_nat ?m - of_nat (edit_distance a b)) / of_nat ?m)"
    by (auto simp add: calculateStringSimilarity_def Let_def levenshteinDistance_correct
          max_def ed_sym[of b a])
  have lo: "0 \<le> calculateStringSimilarity a b"
    unfolding eq using le by simp
  have hi: "calculateStringSimilarity a b \<le> 1"
    unfolding eq by (simp add: divide_le_eq)
  have same: "calculateStringSimilarity a a = 1"
    by (simp add: calculateStringSimilarity_def levenshteinDistance_correct)
  have empty: "calculateStringSimilarity [] [] = 1"
    by (simp add: calculateStringSimilarity_def)
  from lo hi eq same empty show ?thesis by blast
qed

theorem similarity_is_normalised_edit_distance_witness:
  "calculateStringSimilarity (str ''ab'') (str ''b'') = 1 / 2
   \<and> calculateStringSimilarity (str ''ab'') (str ''ab'') = 1"
  using similarity_is_normalised_edit_distance [of "str ''ab''" "str ''b''"]
        similarity_is_normalised_edit_distance [of "str ''ab''" "str ''ab''"]
  by simp

subsection \<open>What the learning operations change\<close>

lemma saveLearningData_fields [simp]:
  "learningData (saveLearningData e) = learningData e"
  "currentQuery (saveLearningData e) = currentQuery e"
  "currentSessionId (saveLearningData e) = currentSessionId e"
  "storageAccepts (saveLearningData e) = storageAccepts e"
  by (simp_all add: saveLearningData_def Let_def)

lemma analyze_words_fields:
  "featureWeights (fold (\<lambda>word ld. ld\<lparr>queryPatterns := f word ld\<rparr>) words ld) = featureWeights ld"
  "successfulQueries (fold (\<lambda>word ld. ld\<lparr>queryPatterns := f word ld\<rparr>) words ld) = successfulQueries ld"
  "userPreferences (fold (\<lambda>word ld. ld\<lparr>queryPatterns := f word ld\<rparr>) words ld) = userPreferences ld"
  "contextualMappings (fold (\<lambda>word ld. ld\<lparr>queryPatterns := f word ld\<rparr>) words ld) = contextualMappings ld"
  by (induction words arbitrary: ld) simp_all

lemma analyzeSuccessfulQuery_fields [simp]:
  "featureWeights (analyzeSuccessfulQuery ld i) = featureWeights ld"
  "successfulQueries (analyzeSuccessfulQuery ld i) = successfulQueries ld"
  "userPreferences (analyzeSuccessfulQuery ld i) = userPreferences ld"
  by (simp_all add: analyzeSuccessfulQuery_def Let_def analyze_words_fields)

lemma updateWeights_fields [simp]:
  "featureWeights (updateWeightsBasedOnFeedback ld r) =
     map (\<lambda>(feature, weight).
            (feature, clamp_5_150 (plus_adjustment weight (feedbackAdjustment r))))
         (featureWeights ld)"
  "successfulQueries (updateWeightsBasedOnFeedback ld r) = successfulQueries ld"
  "queryPatterns (updateWeightsBasedOnFeedback ld r) = queryPatterns ld"
  "userPreferences (updateWeightsBasedOnFeedback ld r) = userPreferences ld"
  "contextualMappings (updateWeightsBasedOnFeedback ld r) = contextualMappings ld"
  by (simp_all add: updateWeightsBasedOnFeedback_def Let_def)

lemma recordInteraction_log [simp]:
  "successfulQueries (learningData (recordInteraction e i)) = successfulQueries (learningData e) @ [i]"
  by (simp add: recordInteraction_def Let_def split: option.split)

lemma recordInteraction_fields [simp]:
  "currentQuery (recordInteraction e i) = currentQuery e"
  "currentSessionId (recordInteraction e i) = currentSessionId e"
  "storageAccepts (recordInteraction e i) = storageAccepts e"
  by (simp_all add: recordInteraction_def Let_def)

lemma recordInteraction_weights:
  "featureWeights (learningData (recordInteraction e i)) =
     (case feedbackRating i of
        None \<Rightarrow> featureWeights (learningData e)
      | Some r \<Rightarrow> map (\<lambda>(feature, weight).
                         (feature, clamp_5_150 (plus_adjustment weight (feedbackAdjustment r))))
                      (featureWeights (learningData e)))"
  by (simp add: recordInteraction_def Let_def split: option.split)

lemma recordFeedback_learningData:
  "currentQuery e \<noteq> [] \<Longrightarrow>
   learningData (recordFeedback e now r) =
     (learningData e)
       \<lparr>successfulQueries := successfulQueries (learningData e) @
          [\<lparr>query = currentQuery e, timestamp = now, resultsCount = 0, clickedListings = [],
            feedbackRating = Some r, sessionId = currentSessionId e\<rparr>],
        featureWeights :=
          map (\<lambda>(feature, weight).
                 (feature, clamp_5_150 (plus_adjustment weight (feedbackAdjustment r))))
              (featureWeights (learningData e))\<rparr>"
  by (simp add: recordFeedback_def recordInteraction_def Let_def updateWeightsBasedOnFeedback_def)

lemma recordClick_fields [simp]:
  "featureWeights (learningData (recordClick e i)) = featureWeights (learningData e)"
  "successfulQueries (learningData (recordClick e i)) = successfulQueries (learningData e)"
  "currentQuery (recordClick e i) = currentQuery e"
  "storageAccepts (recordClick e i) = storageAccepts e"
  by (simp_all add: recordClick_def Let_def)

lemma search_fields [simp]:
  "learningData (snd (search e q S)) = learningData e"
  "currentQuery (snd (search e q S)) = q"
  "currentSessionId (snd (search e q S)) = currentSessionId e"
  "storageAccepts (snd (search e q S)) = storageAccepts e"
  "localStorage (snd (search e q S)) = localStorage e"
  by (simp_all add: search_def Let_def split: sum.split)

text \<open>
  Claim C10. For every rating, \<open>recordFeedback\<close> changes at most the feature
  weights and the interaction log: the interaction that it builds has no
  clicked listings, so \<open>queryPatterns\<close>, \<open>userPreferences\<close> and
  \<open>contextualMappings\<close> are exactly as before (and so are the current query and
  the session identifier).
\<close>

theorem recordFeedback_leaves_maps_unchanged:
  "queryPatterns (learningData (recordFeedback e now rating)) = queryPatterns (learningData e)
   \<and> userPreferences (learningData (recordFeedback e now rating)) = userPreferences (learningData e)
   \<and> contextualMappings (learningData (recordFeedback e now rating))
       = contextualMappings (learningData e)
   \<and> currentQuery (recordFeedback e now rating) = currentQuery e
   \<and> currentSessionId (recordFeedback e now rating) = currentSessionId e"
  by (cases "currentQuery e = []") (simp_all add: recordFeedback_learningData, simp_all add: recordFeedback_def)


lemma finite_update:
  "clamp_5_150 (plus_adjustment (Weight w) (feedbackAdjustment (Num r)))
   = Weight (max 5 (min 150 (w + (r - 3) * 5)))"
  by simp

lemma clamp_in_range: "x \<noteq> NaN \<Longrightarrow> inRange (clamp_5_150 x)"
  by (cases x) (simp_all add: max_def min_def)

lemma update_in_range:
  "r \<noteq> NaN \<Longrightarrow> weight \<noteq> WeightNaN \<Longrightarrow>
   inRange (clamp_5_150 (plus_adjustment weight (feedbackAdjustment r)))"
  by (cases weight; cases r) (simp_all add: max_def min_def)

lemma inRange_not_NaN: "inRange weight \<Longrightarrow> weight \<noteq> WeightNaN"
  by (cases weight) simp_all

lemma weightsInRange_update:
  assumes "r \<noteq> NaN" and "\<forall>(feature, weight) \<in> set weights. weight \<noteq> WeightNaN"
  shows "weightsInRange
           (map (\<lambda>(feature, weight).
                   (feature, clamp_5_150 (plus_adjustment weight (feedbackAdjustment r))))
                weights)"
  unfolding weightsInRange_def using assms by (auto simp add: update_in_range)

lemma weightsInRange_finite:
  "weightsInRange weights \<Longrightarrow> \<forall>(feature, weight) \<in> set weights. weight \<noteq> WeightNaN"
  unfolding weightsInRange_def by (auto dest: inRange_not_NaN)

lemma weightsInRange_step:
  assumes "weightsInRange (featureWeights (learningData e))" and "ratingIsNumber op"
  shows "weightsInRange (featureWeights (learningData (step op e)))"
proof (cases op)
  case (Search q S)
  then show ?thesis using assms(1) by simp
next
  case (RecordClick i)
  then show ?thesis using assms(1) by simp
next
  case (RecordFeedback now r)
  with assms(2) have "r \<noteq> NaN" by simp
  then show ?thesis using RecordFeedback assms(1) weightsInRange_finite[OF assms(1)]
    by (cases "currentQuery e = []")
       (simp_all add: recordFeedback_def recordInteraction_weights weightsInRange_update)
next
  case (RecordInteraction i)
  with assms(2) have "feedbackRating i \<noteq> Some NaN" by simp
  then show ?thesis using RecordInteraction assms(1) weightsInRange_finite[OF assms(1)]
    by (cases "feedbackRating i")
       (simp_all add: recordInteraction_weights weightsInRange_update)
qed

lemma weightsInRange_run:
  "weightsInRange (featureWeights (learningData e)) \<Longrightarrow> \<forall>op \<in> set ops. ratingIsNumber op \<Longrightarrow>
   weightsInRange (featureWeights (learningData (run ops e)))"
  unfolding run_def by (induction ops arbitrary: e) (simp_all add: weightsInRange_step)

lemma weightsInRange_default: "weightsInRange defaultFeatureWeights"
  by (simp add: weightsInRange_def defaultFeatureWeights_def)

lemma searchedEngine_simps:
  "currentQuery searchedEngine = str ''office''"
  "learningData searchedEngine = defaultLearningData"
  "currentSessionId searchedEngine = str ''session_1''"
  by (simp_all add: searchedEngine_def freshEngine_def newEngine_def loadLearningData_def)

text \<open>
  Claim C2 says that the weights stay in \<open>[5, 150]\<close> after every sequence of
  operations. The engine takes the rating unchecked, and
  \<open>Math.max(5, Math.min(150, weight + NaN))\<close> is \<open>NaN\<close>: after a search for
  \<open>office\<close> and \<open>recordFeedback(NaN)\<close> on a fresh engine the weight of
  \<open>exact_match\<close> is \<open>NaN\<close>, and the weights are not in range.
\<close>

theorem nan_rating_counterexample:
  "map_get (featureWeights (learningData
       (run [Search (str ''office'') [], RecordFeedback 0 NaN] freshEngine)))
     (str ''exact_match'') = Some WeightNaN
   \<and> \<not> weightsInRange (featureWeights (learningData
       (run [Search (str ''office'') [], RecordFeedback 0 NaN] freshEngine)))"
proof -
  have "run [Search (str ''office'') [], RecordFeedback 0 NaN] freshEngine
        = recordFeedback searchedEngine 0 NaN"
    by (simp add: run_def searchedEngine_def)
  then show ?thesis
    by (simp add: recordFeedback_learningData searchedEngine_simps defaultLearningData_def
          defaultFeatureWeights_def map_get_def weightsInRange_def)
qed

text \<open>
  Claim C2, as amended. After every sequence of \<open>search\<close>, \<open>recordClick\<close>,
  \<open>recordFeedback\<close> and \<open>recordInteraction\<close> whose ratings are numbers other than
  \<open>NaN\<close>, on an engine that started from the default learning state, every
  feature weight lies in \<open>[5, 150]\<close>; the feedback update adds
  \<open>(rating - 3) * 5\<close> to each weight and clamps each one into \<open>[5, 150]\<close>.
\<close>

theorem weights_stay_in_range:
  assumes "\<forall>op \<in> set ops. ratingIsNumber op"
  shows "weightsInRange (featureWeights (learningData (run ops (newEngine sid None accepts))))
   \<and> featureWeights (updateWeightsBasedOnFeedback ld rating) =
       map (\<lambda>(feature, weight).
              (feature, clamp_5_150 (plus_adjustment weight (feedbackAdjustment rating))))
           (featureWeights ld)
   \<and> clamp_5_150 (plus_adjustment (Weight w) (feedbackAdjustment (Num r)))
       = Weight (max 5 (min 150 (w + (r - 3) * 5)))
   \<and> (rating \<noteq> NaN \<longrightarrow>
        inRange (clamp_5_150 (plus_adjustment (Weight w) (feedbackAdjustment rating))))"
proof -
  have "weightsInRange (featureWeights (learningData (newEngine sid None accepts)))"
    by (simp add: newEngine_def loadLearningData_def defaultLearningData_def weightsInRange_default)
  then have "weightsInRange (featureWeights (learningData (run ops (newEngine sid None accepts))))"
    using assms by (rule weightsInRange_run)
  then show ?thesis
    by (simp add: update_in_range del: clamp_5_150.simps plus_adjustment.simps
          feedbackAdjustment.simps) simp
qed

theorem weights_stay_in_range_witness:
  "ratingIsNumber (RecordFeedback 0 (Num 5))
   \<and> ratingIsNumber (RecordFeedback 6 PlusInfinity)
   \<and> weightsInRange
     (featureWeights (learningData
        (run [Search (str ''office'') [], RecordFeedback 0 (Num 5), RecordFeedback 1 (Num 5),
              RecordFeedback 2 (Num 5), RecordFeedback 3 (Num 5), RecordFeedback 4 (Num 5),
              RecordFeedback 5 (Num 5), RecordFeedback 6 PlusInfinity]
             freshEngine)))
   \<and> inRange (clamp_5_150 (plus_adjustment (Weight 148) (feedbackAdjustment (Num 5))))"
proof -
  let ?ops = "[Search (str ''office'') [], RecordFeedback 0 (Num 5), RecordFeedback 1 (Num 5),
              RecordFeedback 2 (Num 5), RecordFeedback 3 (Num 5), RecordFeedback 4 (Num 5),
              RecordFeedback 5 (Num 5), RecordFeedback 6 PlusInfinity]"
  have h: "\<forall>op \<in> set ?ops. ratingIsNumber op" by simp
  have n: "Num 5 \<noteq> NaN" by simp
  from weights_stay_in_range [OF h, of "str ''session_1''" "\<lambda>toSave. True" defaultLearningData
         "Num 5" 148 5] n
  show ?thesis by (simp add: freshEngine_def)
qed

text \<open>
  Claim C3 asks only for a current query. An engine that has loaded the weights
  200 and 2 from storage takes the first down to 150 on \<open>recordFeedback(5)\<close>
  and the second up to 5 on \<open>recordFeedback(1)\<close>.
\<close>

theorem loaded_weights_counterexample:
  "currentQuery loadedEngine = str ''office''
   \<and> map_get (featureWeights (learningData loadedEngine)) (str ''exact_match'') = Some (Weight 200)
   \<and> map_get (featureWeights (learningData (recordFeedback loadedEngine 0 (Num 5))))
        (str ''exact_match'') = Some (Weight 150)
   \<and> map_get (featureWeights (learningData loadedEngine)) (str ''word_match'') = Some (Weight 2)
   \<and> map_get (featureWeights (learningData (recordFeedback loadedEngine 0 (Num 1))))
        (str ''word_match'') = Some (Weight 5)"
proof -
  have cq: "currentQuery loadedEngine = str ''office''"
    by (simp add: loadedEngine_def)
  have ld: "learningData loadedEngine = storedLearningData"
    by (simp add: loadedEngine_def newEngine_def loadLearningData_def)
  show ?thesis
    by (simp add: recordFeedback_learningData cq)
       (simp add: ld storedLearningData_def map_get_def)
qed

text \<open>
  Claim C3, as amended. With a current query set and every weight in
  \<open>[5, 150]\<close>, \<open>recordFeedback(5)\<close> leaves every weight at least as large as it
  was (it becomes the old weight plus 10, capped at 150) and \<open>recordFeedback(1)\<close>
  at most as large (the old weight minus 10, floored at 5); from the default
  weights, three calls of \<open>recordFeedback(1)\<close> take \<open>exact_match\<close> from 100 to
  90, 80 and 70.
\<close>

theorem feedback_is_monotone:
  assumes "currentQuery e \<noteq> []"
  shows "(weightsInRange (featureWeights (learningData e)) \<longrightarrow>
            list_all2 (\<lambda>(feature, weight) (feature', weight').
                         feature' = feature \<and>
                         (\<exists>w w'. weight = Weight w \<and> weight' = Weight w'
                                  \<and> w \<le> w' \<and> w' = min 150 (w + 10)))
              (featureWeights (learningData e))
              (featureWeights (learningData (recordFeedback e now (Num 5))))
          \<and> list_all2 (\<lambda>(feature, weight) (feature', weight').
                         feature' = feature \<and>
                         (\<exists>w w'. weight = Weight w \<and> weight' = Weight w'
                                  \<and> w' \<le> w \<and> w' = max 5 (w - 10)))
              (featureWeights (learningData e))
              (featureWeights (learningData (recordFeedback e now (Num 1)))))
       \<and> (featureWeights (learningData e) = defaultFeatureWeights \<longrightarrow>
            map_get (featureWeights (learningData e)) (str ''exact_match'') = Some (Weight 100)
          \<and> map_get (featureWeights (learningData (recordFeedback e t1 (Num 1))))
              (str ''exact_match'') = Some (Weight 90)
          \<and> map_get (featureWeights (learningData
                (recordFeedback (recordFeedback e t1 (Num 1)) t2 (Num 1))))
              (str ''exact_match'') = Some (Weight 80)
          \<and> map_get (featureWeights (learningData
                (recordFeedback (recordFeedback (recordFeedback e t1 (Num 1)) t2 (Num 1))
                   t3 (Num 1))))
              (str ''exact_match'') = Some (Weight 70))"
proof -
  have fb: "\<And>e now r. currentQuery e \<noteq> [] \<Longrightarrow>
      featureWeights (learningData (recordFeedback e now r)) =
        map (\<lambda>(feature, weight).
               (feature, clamp_5_150 (plus_adjustment weight (feedbackAdjustment r))))
            (featureWeights (learningData e))"
    by (simp add: recordFeedback_learningData)
  have cq: "\<And>e now r. currentQuery (recordFeedback e now r) = currentQuery e"
    by (simp add: recordFeedback_def)
  have up: "inRange weight \<Longrightarrow>
      \<exists>w w'. weight = Weight w
        \<and> clamp_5_150 (plus_adjustment weight (feedbackAdjustment (Num 5))) = Weight w'
        \<and> w \<le> w' \<and> w' = min 150 (w + 10)" for weight
    by (cases weight) (auto simp add: max_def min_def)
  have down: "inRange weight \<Longrightarrow>
      \<exists>w w'. weight = Weight w
        \<and> clamp_5_150 (plus_adjustment weight (feedbackAdjustment (Num 1))) = Weight w'
        \<and> w' \<le> w \<and> w' = max 5 (w - 10)" for weight
    by (cases weight) (auto simp add: max_def min_def)
  have mono: "list_all2 (\<lambda>(feature, weight) (feature', weight').
                         feature' = feature \<and>
                         (\<exists>w w'. weight = Weight w \<and> weight' = Weight w'
                                  \<and> w \<le> w' \<and> w' = min 150 (w + 10)))
              (featureWeights (learningData e))
              (featureWeights (learningData (recordFeedback e now (Num 5))))
      \<and> list_all2 (\<lambda>(feature, weight) (feature', weight').
                         feature' = feature \<and>
                         (\<exists>w w'. weight = Weight w \<and> weight' = Weight w'
                                  \<and> w' \<le> w \<and> w' = max 5 (w - 10)))
              (featureWeights (learningData e))
              (featureWeights (learningData (recordFeedback e now (Num 1))))"
    if "weightsInRange (featureWeights (learningData e))"
    unfolding fb[OF assms] list_all2_map2 list_all2_same
    using that up down unfolding weightsInRange_def by fastforce
  have chain: "featureWeights (learningData e) = defaultFeatureWeights \<Longrightarrow>
            map_get (featureWeights (learningData e)) (str ''exact_match'') = Some (Weight 100)
          \<and> map_get (featureWeights (learningData (recordFeedback e t1 (Num 1))))
              (str ''exact_match'') = Some (Weight 90)
          \<and> map_get (featureWeights (learningData
                (recordFeedback (recordFeedback e t1 (Num 1)) t2 (Num 1))))
              (str ''exact_match'') = Some (Weight 80)
          \<and> map_get (featureWeights (learningData
                (recordFeedback (recordFeedback (recordFeedback e t1 (Num 1)) t2 (Num 1))
                   t3 (Num 1))))
              (str ''exact_match'') = Some (Weight 70)"
    using assms by (simp add: fb cq defaultFeatureWeights_def map_get_def)
  from mono chain show ?thesis by blast
qed

theorem recordFeedback_leaves_maps_unchanged_witness:
  "contextualMappings (learningData (recordFeedback searchedEngine 7 (Num 4))) = []
   \<and> queryPatterns (learningData (recordFeedback searchedEngine 7 (Num 4))) = []
   \<and> userPreferences (learningData (recordFeedback searchedEngine 7 (Num 4))) = []
   \<and> length (successfulQueries (learningData (recordFeedback searchedEngine 7 (Num 4)))) = 1"
  using recordFeedback_leaves_maps_unchanged [of searchedEngine 7 "Num 4"]
  by (simp add: searchedEngine_simps defaultLearningData_def recordFeedback_def)

theorem feedback_is_monotone_witness:
  "currentQuery searchedEngine \<noteq> []
   \<and> weightsInRange (featureWeights (learningData searchedEngine))
   \<and> featureWeights (learningData searchedEngine) = defaultFeatureWeights
   \<and> list_all2 (\<lambda>(feature, weight) (feature', weight').
                   feature' = feature \<and>
                   (\<exists>w w'. weight = Weight w \<and> weight' = Weight w'
                            \<and> w \<le> w' \<and> w' = min 150 (w + 10)))
        (featureWeights (learningData searchedEngine))
        (featureWeights (learningData (recordFeedback searchedEngine 0 (Num 5))))
   \<and> map_get (featureWeights (learningData
         (recordFeedback (recordFeedback (recordFeedback searchedEngine 1 (Num 1)) 2 (Num 1))
            3 (Num 1))))
       (str ''exact_match'') = Some (Weight 70)"
proof -
  have h1: "currentQuery searchedEngine \<noteq> []" by (simp add: searchedEngine_simps)
  have h2: "weightsInRange (featureWeights (learningData searchedEngine))"
    by (simp add: searchedEngine_simps defaultLearningData_def weightsInRange_default)
  have h3: "featureWeights (learningData searchedEngine) = defaultFeatureWeights"
    by (simp add: searchedEngine_simps defaultLearningData_def)
  from feedback_is_monotone [OF h1, of 0 1 2 3] h1 h2 h3 show ?thesis by blast
qed

text \<open>
  Claim C5 says that a rating outside 1 to 5 is ignored. The engine does not
  look at the value of the rating: with the current query \<open>office\<close> and the
  default weights, \<open>recordFeedback(6)\<close> moves \<open>exact_match\<close> from 100 to 115
  and appends an interaction to the log.
\<close>

theorem out_of_range_rating_counterexample:
  "currentQuery searchedEngine = str ''office''
   \<and> map_get (featureWeights (learningData searchedEngine)) (str ''exact_match'')
        = Some (Weight 100)
   \<and> successfulQueries (learningData searchedEngine) = []
   \<and> map_get (featureWeights (learningData (recordFeedback searchedEngine 0 (Num 6))))
        (str ''exact_match'') = Some (Weight 115)
   \<and> length (successfulQueries (learningData (recordFeedback searchedEngine 0 (Num 6)))) = 1"
  by (simp add: searchedEngine_simps recordFeedback_learningData defaultLearningData_def
        defaultFeatureWeights_def map_get_def)

text \<open>
  Claim C5, as amended. \<open>recordFeedback\<close> does not check the rating: for every
  rating, inside 1 to 5 or not, and with a current query set, it appends an
  interaction with that rating to the log and replaces every weight \<open>w\<close> by
  \<open>Math.max(5, Math.min(150, w + (rating - 3) * 5))\<close>, the sum clamped to
  \<open>[5, 150]\<close> (for a weight \<open>w\<close> and a rating \<open>r\<close> that are rationals this is
  \<open>max 5 (min 150 (w + (r - 3) * 5))\<close>), without raising. A click or a feedback
  that arrives while no current query is set changes nothing.
\<close>

theorem feedback_rating_is_not_validated:
  "(currentQuery e = [] \<longrightarrow> recordFeedback e now rating = e \<and> recordClick e listingId = e)
   \<and> (currentQuery e \<noteq> [] \<longrightarrow>
        learningData (recordFeedback e now rating) =
          (learningData e)
            \<lparr>successfulQueries := successfulQueries (learningData e) @
               [\<lparr>query = currentQuery e, timestamp = now, resultsCount = 0, clickedListings = [],
                 feedbackRating = Some rating, sessionId = currentSessionId e\<rparr>],
             featureWeights :=
               map (\<lambda>(feature, weight).
                      (feature, clamp_5_150 (plus_adjustment weight (feedbackAdjustment rating))))
                   (featureWeights (learningData e))\<rparr>)
   \<and> clamp_5_150 (plus_adjustment (Weight w) (feedbackAdjustment (Num r)))
       = Weight (max 5 (min 150 (w + (r - 3) * 5)))"
  by (simp add: recordFeedback_learningData) (simp add: recordFeedback_def recordClick_def)

theorem feedback_rating_is_not_validated_witness:
  "currentQuery freshEngine = []
   \<and> recordFeedback freshEngine 0 (Num 6) = freshEngine
   \<and> recordClick freshEngine (str ''1'') = freshEngine
   \<and> currentQuery searchedEngine \<noteq> []
   \<and> featureWeights (learningData (recordFeedback searchedEngine 0 (Num 6))) =
       map (\<lambda>(feature, weight).
              (feature, clamp_5_150 (plus_adjustment weight (feedbackAdjustment (Num 6)))))
           defaultFeatureWeights
   \<and> clamp_5_150 (plus_adjustment (Weight 100) (feedbackAdjustment (Num 6))) = Weight 115"
  using feedback_rating_is_not_validated
          [where e = freshEngine and now = 0 and rating = "Num 6" and listingId = "str ''1''"
             and w = 100 and r = 6]
        feedback_rating_is_not_validated
          [where e = searchedEngine and now = 0 and rating = "Num 6" and listingId = "str ''1''"
             and w = 100 and r = 6]
  by (simp add: searchedEngine_simps defaultLearningData_def) (simp add: freshEngine_def newEngine_def)

subsection \<open>The interaction log\<close>

lemma run_interactions_log:
  "successfulQueries (learningData (run (map RecordInteraction is) e))
   = successfulQueries (learningData e) @ is"
  unfolding run_def by (induction "is" arbitrary: e) simp_all

lemma run_storageAccepts [simp]: "storageAccepts (run ops e) = storageAccepts e"
proof (induction ops arbitrary: e)
  case Nil
  show ?case by (simp add: run_def)
next
  case (Cons op ops)
  have "storageAccepts (step op e) = storageAccepts e"
    by (cases op) (simp_all add: recordFeedback_def)
  with Cons[of "step op e"] show ?case by (simp add: run_def)
qed

lemma recordInteraction_storage:
  assumes "\<forall>toSave. storageAccepts e toSave"
  shows "localStorage (recordInteraction e i) =
           Some ((learningData (recordInteraction e i))
                   \<lparr>successfulQueries :=
                      slice_last 1000 (successfulQueries (learningData e) @ [i])\<rparr>)"
proof -
  have "recordInteraction e i = saveLearningData (e\<lparr>learningData := learningData (recordInteraction e i)\<rparr>)"
    by (simp add: recordInteraction_def Let_def)
  moreover have "localStorage (saveLearningData (e\<lparr>learningData := learningData (recordInteraction e i)\<rparr>))
     = Some ((learningData (recordInteraction e i))
                   \<lparr>successfulQueries :=
                      slice_last 1000 (successfulQueries (learningData (recordInteraction e i)))\<rparr>)"
    using assms by (simp add: saveLearningData_def Let_def)
  ultimately show ?thesis by simp
qed

text \<open>
  Claim C6 says that the interaction log has length 1000 after more than 1000
  calls of \<open>recordInteraction\<close>. The log of the engine is never cut: after 1001
  calls on a fresh engine it has 1001 entries.
\<close>

theorem unbounded_log_counterexample:
  "length (successfulQueries (learningData
     (run (replicate 1001 (RecordInteraction plainInteraction)) freshEngine))) = 1001"
proof -
  have "replicate 1001 (RecordInteraction plainInteraction)
        = map RecordInteraction (replicate 1001 plainInteraction)" by simp
  then show ?thesis
    by (simp only: run_interactions_log)
       (simp add: freshEngine_def newEngine_def loadLearningData_def defaultLearningData_def)
qed

text \<open>
  Claim C6, as amended. After a sequence of more than 1000 calls of
  \<open>recordInteraction\<close> the log in memory holds every interaction, appended in
  arrival order to what it held before; the copy that \<open>saveLearningData\<close>
  has written to storage (when storage accepts the writes) holds exactly the
  1000 most recent interactions in arrival order.
\<close>

theorem persisted_log_is_bounded:
  assumes "length is > 1000" and "\<forall>toSave. storageAccepts e toSave"
  shows "successfulQueries (learningData (run (map RecordInteraction is) e))
           = successfulQueries (learningData e) @ is
         \<and> (\<exists>saved. localStorage (run (map RecordInteraction is) e) = Some saved
                \<and> successfulQueries saved = drop (length is - 1000) is
                \<and> length (successfulQueries saved) = 1000)"
proof -
  from assms(1) obtain is' i where snoc: "is = is' @ [i]"
    by (cases "is" rule: rev_cases) auto
  let ?e' = "run (map RecordInteraction is') e"
  have run: "run (map RecordInteraction is) e = recordInteraction ?e' i"
    by (simp add: snoc run_def)
  have acc: "\<forall>toSave. storageAccepts ?e' toSave" using assms(2) by simp
  have log': "successfulQueries (learningData ?e') = successfulQueries (learningData e) @ is'"
    by (rule run_interactions_log)
  have "slice_last 1000 (successfulQueries (learningData ?e') @ [i]) = drop (length is - 1000) is"
    using assms(1) by (simp add: slice_last_def log' snoc)
  moreover have "length (drop (length is - 1000) is) = 1000" using assms(1) by simp
  ultimately show ?thesis
    using recordInteraction_storage[OF acc, of i] run_interactions_log[of "is" e]
    by (simp add: run)
qed

theorem persisted_log_is_bounded_witness:
  "length (replicate 1001 plainInteraction) > 1000
   \<and> (\<forall>toSave. storageAccepts freshEngine toSave)
   \<and> length (successfulQueries (learningData
        (run (map RecordInteraction (replicate 1001 plainInteraction)) freshEngine))) = 1001
   \<and> (\<exists>saved. localStorage (run (map RecordInteraction (replicate 1001 plainInteraction))
                               freshEngine) = Some saved
          \<and> successfulQueries saved = replicate 1000 plainInteraction)"
proof -
  have h1: "length (replicate 1001 plainInteraction) > 1000" by simp
  have h2: "\<forall>toSave. storageAccepts freshEngine toSave"
    by (simp add: freshEngine_def newEngine_def)
  have "successfulQueries (learningData freshEngine) = []"
    by (simp add: freshEngine_def newEngine_def loadLearningData_def defaultLearningData_def)
  with persisted_log_is_bounded [OF h1 h2] h1 h2 show ?thesis by auto
qed

text \<open>
  Claim C9 says that every key of the learning maps is lower-cased and trimmed,
  and that \<open>recordClick\<close> files the click under the lower-cased, trimmed current
  query. \<open>search\<close> keeps the query as typed in \<open>currentQuery\<close>, and \<open>recordClick\<close>
  uses that as the key: after a search for \<open>Shop\<close> and a click on listing 1, the
  key of \<open>contextualMappings\<close> is \<open>Shop\<close>, whose normal form is \<open>shop\<close>.
\<close>

theorem recordClick_stores_raw_query:
  "contextualMappings (learningData
      (run [Search (str ''Shop'') [], RecordClick (str ''1'')] freshEngine))
     = [(str ''Shop'', [str ''1''])]
   \<and> trim (toLowerCase (str ''Shop'')) = str ''shop''
   \<and> str ''Shop'' \<noteq> str ''shop''"
  by (simp add: run_def search_def recordClick_def Let_def freshEngine_def newEngine_def
        loadLearningData_def defaultLearningData_def map_get_def toLowerCase_def lower_unit_def
        trim_def is_space_def)

subsection \<open>Searching\<close>

text \<open>
  Claim C4. For a query that is empty, or empty after lower-casing and trimming,
  \<open>search\<close> returns the list of listings that it was given, unchanged and in
  the same order, whatever the listings are.
\<close>

theorem empty_query_is_identity:
  "(trim (toLowerCase q) = [] \<longrightarrow> fst (search e q S) = Inr S)
   \<and> fst (search e [] S) = Inr S"
  by (simp add: search_def Let_def toLowerCase_def trim_def)

theorem empty_query_is_identity_witness:
  "trim (toLowerCase (str ''  '')) = []
   \<and> fst (search freshEngine (str ''  '') [blankListing, blankListing\<lparr>area := 1\<rparr>])
       = Inr [blankListing, blankListing\<lparr>area := 1\<rparr>]"
  using empty_query_is_identity
          [of "str ''  ''" freshEngine "[blankListing, blankListing\<lparr>area := 1\<rparr>]"]
  by (simp add: toLowerCase_def trim_def is_space_def lower_unit_def)

subsection \<open>The size term\<close>

lemma fst_addFeature [simp]:
  "fst (addFeature acc fires amount name) = fst acc + (if fires then amount else 0)"
  by (simp add: addFeature_def)

lemma getLearnedTypeKeywords_ordinary:
  "ordinaryType l \<Longrightarrow> \<exists>keywords. getLearnedTypeKeywords ld (listing_type l) = Inr keywords"
  by (simp add: ordinaryType_def getLearnedTypeKeywords_def Let_def)

lemma calculateAdaptiveScore_ordinary:
  "ordinaryType l \<Longrightarrow> \<exists>result. calculateAdaptiveScore ld q l = Inr result \<and> listing result = l"
  using getLearnedTypeKeywords_ordinary[of l ld]
  by (auto simp add: calculateAdaptiveScore_def Let_def)

lemma calculateAdaptiveScore_listing:
  "calculateAdaptiveScore ld q l = Inr result \<Longrightarrow> listing result = l"
  by (auto simp add: calculateAdaptiveScore_def Let_def split: sum.splits)

lemma size_80_85: "calculateAdaptiveSizeScore (str ''80'') 85 = 40"
  by (simp add: calculateAdaptiveSizeScore_def is_digit_def parseInt_def)

lemma size_80_500: "calculateAdaptiveSizeScore (str ''80'') 500 = 0"
  by (simp add: calculateAdaptiveSizeScore_def is_digit_def parseInt_def
        getLearnedSizePreferences_def)

lemma sizeScan_first:
  "sizeScan a numbers =
     (case find (\<lambda>numStr. parseInt numStr \<le> 1000 \<and> \<bar>a - of_nat (parseInt numStr)\<bar> \<le> 100) numbers of
        None \<Rightarrow> None
      | Some numStr \<Rightarrow>
          Some (if \<bar>a - of_nat (parseInt numStr)\<bar> \<le> 20 then 40
                else if \<bar>a - of_nat (parseInt numStr)\<bar> \<le> 50 then 20 else 10))"
  by (induction numbers) (auto simp add: Let_def)

lemma area_update_irrelevant:
  "calculateFeatureScore ld q (l\<lparr>area := a\<rparr>) = calculateFeatureScore ld q l"
  "calculateContextualScore ld q (l\<lparr>area := a\<rparr>) = calculateContextualScore ld q l"
  "ordinaryType (l\<lparr>area := a\<rparr>) = ordinaryType l"
  by (simp_all add: calculateFeatureScore_def calculateContextualScore_def ordinaryType_def)

text \<open>
  Claim C8. For the query \<open>80\<close> and an area of 85 the size term is 40 (the
  difference 5 is at most 20); under the default weights it is scaled by
  \<open>30 / 30\<close>, so that exactly 40 is added to the total score: a listing with
  nothing else to match scores 40, and any listing scores 40 more with area 85
  than with an area that the size term does not match. In general the first
  number of the query that is at most 1000 and within 100 of the area decides:
  40 within 20, 20 within 50, 10 within 100.
\<close>

theorem size_term_of_query_80:
  "calculateAdaptiveSizeScore (str ''80'') 85 = 40
   \<and> 40 * or_default (map_get defaultFeatureWeights (str ''size_match'')) 30 / 30 = 40
   \<and> calculateAdaptiveScore defaultLearningData (str ''80'') (blankListing\<lparr>area := 85\<rparr>)
       = Inr \<lparr>listing = blankListing\<lparr>area := 85\<rparr>, score = 40,
              matchedFeatures = [str ''size_match'']\<rparr>
   \<and> (featureWeights ld = defaultFeatureWeights \<and> ordinaryType l \<longrightarrow>
        relevance ld (str ''80'') (l\<lparr>area := 85\<rparr>)
          = relevance ld (str ''80'') (l\<lparr>area := 500\<rparr>) + 40)
   \<and> (find (\<lambda>numStr. parseInt numStr \<le> 1000 \<and> \<bar>a - of_nat (parseInt numStr)\<bar> \<le> 100)
             (digitRuns q) = Some numStr \<longrightarrow>
        calculateAdaptiveSizeScore q a =
          (if \<bar>a - of_nat (parseInt numStr)\<bar> \<le> 20 then 40
           else if \<bar>a - of_nat (parseInt numStr)\<bar> \<le> 50 then 20 else 10))"
proof -
  have scale: "40 * or_default (map_get defaultFeatureWeights (str ''size_match'')) 30 / 30 = 40"
    by (simp add: defaultFeatureWeights_def map_get_def or_default_def value_or_default_def)
  have concrete: "calculateAdaptiveScore defaultLearningData (str ''80'') (blankListing\<lparr>area := 85\<rparr>)
       = Inr \<lparr>listing = blankListing\<lparr>area := 85\<rparr>, score = 40,
              matchedFeatures = [str ''size_match'']\<rparr>"
    by (simp add: calculateAdaptiveScore_def Let_def blankListing_def defaultLearningData_def
          defaultFeatureWeights_def map_get_def or_default_def value_or_default_def addFeature_def
          getLearnedTypeKeywords_def toLowerCase_def lower_unit_def baseKeywords_def
          size_80_85[simplified] calculateAdaptivePriceScore_def priceWords_def is_digit_def parseInt_def
          calculateFeatureScore_def calculateContextualScore_def calculateSemanticSimilarity_def
          is_space_def)
  have general: "relevance ld (str ''80'') (l\<lparr>area := 85\<rparr>)
          = relevance ld (str ''80'') (l\<lparr>area := 500\<rparr>) + 40"
    if w: "featureWeights ld = defaultFeatureWeights" and o: "ordinaryType l"
  proof -
    from getLearnedTypeKeywords_ordinary[OF o, of ld]
    obtain kws where k: "getLearnedTypeKeywords ld (listing_type l) = Inr kws" by blast
    show ?thesis
      by (simp add: relevance_def calculateAdaptiveScore_def Let_def k w area_update_irrelevant
            size_80_85[simplified] size_80_500[simplified] scale[simplified])
  qed
  have first: "calculateAdaptiveSizeScore q a =
          (if \<bar>a - of_nat (parseInt numStr)\<bar> \<le> 20 then 40
           else if \<bar>a - of_nat (parseInt numStr)\<bar> \<le> 50 then 20 else 10)"
    if "find (\<lambda>numStr. parseInt numStr \<le> 1000 \<and> \<bar>a - of_nat (parseInt numStr)\<bar> \<le> 100)
             (digitRuns q) = Some numStr"
    using that by (simp add: calculateAdaptiveSizeScore_def sizeScan_first)
  from size_80_85 scale concrete general first show ?thesis by blast
qed


theorem size_term_of_query_80_witness:
  "featureWeights defaultLearningData = defaultFeatureWeights
   \<and> ordinaryType blankListing
   \<and> relevance defaultLearningData (str ''80'') (blankListing\<lparr>area := 85\<rparr>)
       = relevance defaultLearningData (str ''80'') (blankListing\<lparr>area := 500\<rparr>) + 40
   \<and> find (\<lambda>numStr. parseInt numStr \<le> 1000 \<and> \<bar>85 - of_nat (parseInt numStr)\<bar> \<le> (100::rat))
          (digitRuns (str ''2000 300 80'')) = Some (str ''80'')
   \<and> calculateAdaptiveSizeScore (str ''2000 300 80'') 85 = 40"
proof -
  have h1: "featureWeights defaultLearningData = defaultFeatureWeights"
    by (simp add: defaultLearningData_def)
  have h2: "ordinaryType blankListing"
    by (simp add: ordinaryType_def blankListing_def toLowerCase_def)
  have h3: "find (\<lambda>numStr. parseInt numStr \<le> 1000 \<and> \<bar>85 - of_nat (parseInt numStr)\<bar> \<le> (100::rat))
          (digitRuns (str ''2000 300 80'')) = Some (str ''80'')"
    by (simp add: is_digit_def parseInt_def)
  note T = size_term_of_query_80 [of defaultLearningData blankListing 85 "str ''2000 300 80''" "str ''80''"]
  from T h1 h2
  have rel: "relevance defaultLearningData (str ''80'') (blankListing\<lparr>area := 85\<rparr>)
       = relevance defaultLearningData (str ''80'') (blankListing\<lparr>area := 500\<rparr>) + 40"
    by blast
  from T h3
  have "calculateAdaptiveSizeScore (str ''2000 300 80'') 85 =
          (if \<bar>85 - of_nat (parseInt (str ''80''))\<bar> \<le> (20::rat) then 40
           else if \<bar>85 - of_nat (parseInt (str ''80''))\<bar> \<le> (50::rat) then 20 else 10)"
    by blast
  then have sz: "calculateAdaptiveSizeScore (str ''2000 300 80'') 85 = 40"
    by (simp add: parseInt_def)
  from h1 h2 rel h3 sz show ?thesis by blast
qed

subsection \<open>Sorting and mapping\<close>

lemma set_sort_insert [simp]: "set (sort_insert cmp x ys) = insert x (set ys)"
  by (induction ys) auto

lemma set_array_sort [simp]: "set (array_sort cmp xs) = set xs"
  by (induction xs) (simp_all add: array_sort_def)

lemma sorted_sort_insert:
  "sorted_wrt (\<lambda>a b. key a \<ge> key b) ys \<Longrightarrow>
   sorted_wrt (\<lambda>a b. key a \<ge> key b) (sort_insert (\<lambda>a b. key b - key a) x ys)"
  by (induction ys) auto

lemma sorted_array_sort:
  "sorted_wrt (\<lambda>a b. key a \<ge> key b) (array_sort (\<lambda>a b. key b - key a) xs)"
  by (induction xs) (simp_all add: array_sort_def sorted_sort_insert)

lemma filter_sort_insert:
  assumes "\<And>y. P y \<Longrightarrow> key y = k"
  shows "filter P (sort_insert (\<lambda>a b. key b - key a) x ys) = filter P (x # ys)"
  using assms by (induction ys) auto

lemma filter_array_sort:
  assumes "\<And>y. P y \<Longrightarrow> key y = k"
  shows "filter P (array_sort (\<lambda>a b. key b - key a) xs) = filter P xs"
proof (induction xs)
  case Nil
  show ?case by (simp add: array_sort_def)
next
  case (Cons x xs)
  have "filter P (array_sort (\<lambda>a b. key b - key a) (x # xs))
        = filter P (x # array_sort (\<lambda>a b. key b - key a) xs)"
    using filter_sort_insert[of P key k x] assms by (simp add: array_sort_def)
  then show ?case using Cons by simp
qed

lemma array_map_Inr:
  "array_map f xs = Inr ys \<Longrightarrow> list_all2 (\<lambda>x y. f x = Inr y) xs ys"
  by (induction xs arbitrary: ys) (auto split: sum.splits)

lemma array_map_total:
  "\<forall>x \<in> set xs. \<exists>y. f x = Inr y \<Longrightarrow> \<exists>ys. array_map f xs = Inr ys"
  by (induction xs) auto

subsection \<open>Ranking\<close>

lemma relevance_of_result:
  "calculateAdaptiveScore ld q (listing r) = Inr r \<Longrightarrow> relevance ld q (listing r) = score r"
  by (simp add: relevance_def)

lemma rankingScore_of_result:
  "calculateAdaptiveScore ld q (listing r) = Inr r \<Longrightarrow>
   rankingScore ld q (listing r) = finalScore ld q r"
  by (simp add: rankingScore_def finalScore_def relevance_def)

lemma scored_listings:
  assumes "array_map (calculateAdaptiveScore ld q) S = Inr ys"
  shows "map listing ys = S" and "\<forall>r \<in> set ys. calculateAdaptiveScore ld q (listing r) = Inr r"
proof -
  have all: "list_all2 (\<lambda>l r. calculateAdaptiveScore ld q l = Inr r) S ys"
    using assms by (rule array_map_Inr)
  then have "list_all2 (\<lambda>l r. listing r = l) S ys"
    by (rule list_all2_mono) (rule calculateAdaptiveScore_listing)
  then show m: "map listing ys = S"
    by (induction rule: list_all2_induct) simp_all
  from all have "list_all2 (\<lambda>l r. calculateAdaptiveScore ld q (listing r) = Inr r) S ys"
    by (rule list_all2_mono) (simp add: calculateAdaptiveScore_listing)
  then show "\<forall>r \<in> set ys. calculateAdaptiveScore ld q (listing r) = Inr r"
    by (induction rule: list_all2_induct) simp_all
qed

lemma applyMLRanking_eq:
  "applyMLRanking ld ys q = array_sort (\<lambda>a b. finalScore ld q b - finalScore ld q a) ys"
proof -
  have "rankingComparator ld q = (\<lambda>a b. finalScore ld q b - finalScore ld q a)"
    by (intro ext) (simp add: rankingComparator_def)
  then show ?thesis by (simp add: applyMLRanking_def)
qed

lemma ranked_properties:
  assumes sc: "\<forall>r \<in> set ys. calculateAdaptiveScore ld q (listing r) = Inr r"
    and R: "R = map listing (filter (\<lambda>item. score item > 0) (applyMLRanking ld ys q))"
  shows "set R \<subseteq> set (map listing ys)"
    and "\<forall>l \<in> set R. relevance ld q l > 0"
    and "sorted_wrt (\<lambda>a b. rankingScore ld q a \<ge> rankingScore ld q b) R"
    and "filter (\<lambda>l. rankingScore ld q l = k) R
         = filter (\<lambda>l. rankingScore ld q l = k \<and> relevance ld q l > 0) (map listing ys)"
proof -
  let ?sorted = "applyMLRanking ld ys q"
  have set_sorted: "set ?sorted = set ys" by (simp add: applyMLRanking_eq)
  show "set R \<subseteq> set (map listing ys)" unfolding R using set_sorted by auto
  show "\<forall>l \<in> set R. relevance ld q l > 0"
    unfolding R using set_sorted sc by (auto simp add: relevance_of_result)
  have "sorted_wrt (\<lambda>a b. finalScore ld q a \<ge> finalScore ld q b) ?sorted"
    unfolding applyMLRanking_eq by (rule sorted_array_sort)
  then have "sorted_wrt (\<lambda>a b. finalScore ld q a \<ge> finalScore ld q b)
               (filter (\<lambda>item. score item > 0) ?sorted)"
    by (rule sorted_wrt_filter)
  then have "sorted_wrt (\<lambda>a b. rankingScore ld q (listing a) \<ge> rankingScore ld q (listing b))
               (filter (\<lambda>item. score item > 0) ?sorted)"
    by (rule sorted_wrt_mono_rel[rotated])
       (use set_sorted sc in \<open>auto simp add: rankingScore_of_result\<close>)
  then show "sorted_wrt (\<lambda>a b. rankingScore ld q a \<ge> rankingScore ld q b) R"
    unfolding R by (simp add: sorted_wrt_map)
  have "filter (\<lambda>l. rankingScore ld q l = k) R
        = map listing (filter (\<lambda>r. rankingScore ld q (listing r) = k \<and> score r > 0) ?sorted)"
    unfolding R by (simp add: filter_map comp_def conj_commute)
  also have "filter (\<lambda>r. rankingScore ld q (listing r) = k \<and> score r > 0) ?sorted
        = filter (\<lambda>r. finalScore ld q r = k \<and> score r > 0) ?sorted"
    by (rule filter_cong) (use set_sorted sc in \<open>auto simp add: rankingScore_of_result\<close>)
  also have "\<dots> = filter (\<lambda>r. finalScore ld q r = k \<and> score r > 0) ys"
    unfolding applyMLRanking_eq by (rule filter_array_sort[where k = k]) simp
  also have "\<dots> = filter (\<lambda>r. rankingScore ld q (listing r) = k \<and> relevance ld q (listing r) > 0) ys"
    by (rule filter_cong) (use sc in \<open>auto simp add: rankingScore_of_result relevance_of_result\<close>)
  finally show "filter (\<lambda>l. rankingScore ld q l = k) R
         = filter (\<lambda>l. rankingScore ld q l = k \<and> relevance ld q l > 0) (map listing ys)"
    by (simp add: filter_map comp_def)
qed

text \<open>
  Claim C1, as amended. For every query whose lower-cased, trimmed form is not
  empty and every list \<open>S\<close> of listings of ordinary type, \<open>search\<close> returns a
  list; and whenever it returns one, every element of the result is a
  member of \<open>S\<close> with relevance score above 0; the result is in descending
  order of the final score (the relevance score plus the type bonus and the
  popularity bonus); and listings of equal final score keep the order that
  they have in \<open>S\<close> (for every value \<open>k\<close>, the listings of final score \<open>k\<close> in
  the result are those of \<open>S\<close> with relevance above 0, in the order of \<open>S\<close>).
\<close>

theorem ranking_of_nonempty_query:
  assumes "trim (toLowerCase q) \<noteq> []"
  shows "((\<forall>l \<in> set S. ordinaryType l) \<longrightarrow> (\<exists>R. fst (search e q S) = Inr R))
       \<and> (fst (search e q S) = Inr R \<longrightarrow>
            set R \<subseteq> set S
          \<and> (\<forall>l \<in> set R. relevance (learningData e) (trim (toLowerCase q)) l > 0)
          \<and> sorted_wrt (\<lambda>a b. rankingScore (learningData e) (trim (toLowerCase q)) a
                               \<ge> rankingScore (learningData e) (trim (toLowerCase q)) b) R
          \<and> (\<forall>k. filter (\<lambda>l. rankingScore (learningData e) (trim (toLowerCase q)) l = k) R
                   = filter (\<lambda>l. rankingScore (learningData e) (trim (toLowerCase q)) l = k
                                  \<and> relevance (learningData e) (trim (toLowerCase q)) l > 0) S))"
proof -
  let ?ld = "learningData e" and ?q = "trim (toLowerCase q)"
  have total: "\<exists>R. fst (search e q S) = Inr R" if "\<forall>l \<in> set S. ordinaryType l"
  proof -
    from that have "\<forall>l \<in> set S. \<exists>r. calculateAdaptiveScore ?ld ?q l = Inr r"
      using calculateAdaptiveScore_ordinary by blast
    then obtain ys where "array_map (calculateAdaptiveScore ?ld ?q) S = Inr ys"
      using array_map_total by blast
    then show ?thesis using assms by (simp add: search_def Let_def)
  qed
  have props: "set R \<subseteq> set S
          \<and> (\<forall>l \<in> set R. relevance ?ld ?q l > 0)
          \<and> sorted_wrt (\<lambda>a b. rankingScore ?ld ?q a \<ge> rankingScore ?ld ?q b) R
          \<and> (\<forall>k. filter (\<lambda>l. rankingScore ?ld ?q l = k) R
                   = filter (\<lambda>l. rankingScore ?ld ?q l = k \<and> relevance ?ld ?q l > 0) S)"
    if ret: "fst (search e q S) = Inr R"
  proof -
    from ret assms obtain ys where
      am: "array_map (calculateAdaptiveScore ?ld ?q) S = Inr ys" and
      R: "R = map listing (filter (\<lambda>item. score item > 0) (applyMLRanking ?ld ys ?q))"
      by (auto simp add: search_def Let_def split: sum.splits)
    note sl = scored_listings[OF am]
    from ranked_properties[OF sl(2) R] show ?thesis unfolding sl(1) by blast
  qed
  from total props show ?thesis by blast
qed



subsection \<open>The empty query is not ranked\<close>

lemma clickedEngine_data:
  "learningData clickedEngine =
     \<lparr>queryPatterns = [(str ''office'', 1)], successfulQueries = [clickInteraction],
      featureWeights = defaultFeatureWeights, userPreferences = [],
      contextualMappings = [(str ''office'', [str ''b''])]\<rparr>"
  by (simp add: clickedEngine_def recordInteraction_def Let_def freshEngine_def newEngine_def
        loadLearningData_def defaultLearningData_def clickInteraction_def plainInteraction_def
        analyzeSuccessfulQuery_def toLowerCase_def lower_unit_def is_space_def map_get_def
        or_default_def value_or_default_def)

lemma score_of_empty_query:
  "l = listingA \<or> l = listingB \<Longrightarrow>
   calculateAdaptiveScore (learningData clickedEngine) [] l
     = Inr \<lparr>listing = l, score = 100, matchedFeatures = [str ''exact_match'']\<rparr>"
  by (auto simp add: clickedEngine_data calculateAdaptiveScore_def Let_def listingA_def listingB_def
        blankListing_def defaultFeatureWeights_def map_get_def or_default_def value_or_default_def addFeature_def
        getLearnedTypeKeywords_def toLowerCase_def lower_unit_def baseKeywords_def
        calculateAdaptiveSizeScore_def getLearnedSizePreferences_def
        calculateAdaptivePriceScore_def priceWords_def
        calculateFeatureScore_def calculateContextualScore_def calculateSemanticSimilarity_def
        is_space_def calculateStringSimilarity_def levenshteinDistance_correct)

text \<open>
  Claim C1 speaks of every query. For the empty query \<open>search\<close> returns the
  listings as they came: after one recorded click on listing \<open>b\<close>, the
  listings \<open>a\<close> and \<open>b\<close> come back in this order, although their final scores
  for the (normalised) empty query are 100 and 102.
\<close>

theorem empty_query_is_not_ranked_counterexample:
  "trim (toLowerCase []) = []
   \<and> fst (search clickedEngine [] [listingA, listingB]) = Inr [listingA, listingB]
   \<and> rankingScore (learningData clickedEngine) [] listingA = 100
   \<and> rankingScore (learningData clickedEngine) [] listingB = 102"
proof -
  have "fst (search clickedEngine [] [listingA, listingB]) = Inr [listingA, listingB]"
    by (simp add: search_def toLowerCase_def trim_def)
  moreover have "rankingScore (learningData clickedEngine) [] listingA = 100"
    by (simp add: rankingScore_def relevance_def score_of_empty_query)
       (simp add: clickedEngine_data calculateTypeBonus_def calculatePopularityScore_def
          listingA_def blankListing_def map_get_def or_default_def value_or_default_def clickInteraction_def
          plainInteraction_def)
  moreover have "rankingScore (learningData clickedEngine) [] listingB = 102"
    by (simp add: rankingScore_def relevance_def score_of_empty_query)
       (simp add: clickedEngine_data calculateTypeBonus_def calculatePopularityScore_def
          listingB_def blankListing_def map_get_def or_default_def value_or_default_def clickInteraction_def
          plainInteraction_def)
  ultimately show ?thesis by (simp add: toLowerCase_def trim_def)
qed


subsection \<open>A ranking for the query 80, and a listing that makes the search raise\<close>

lemma constructor_type_raises:
  "fst (search freshEngine (str ''80'') [blankListing\<lparr>listing_type := str ''Constructor''\<rparr>])
   = Inl TypeError"
  by (simp add: search_def Let_def toLowerCase_def lower_unit_def trim_def is_space_def
        calculateAdaptiveScore_def getLearnedTypeKeywords_def blankListing_def)

lemma score_of_query_80:
  "calculateAdaptiveScore defaultLearningData (str ''80'') (blankListing\<lparr>listing_id := i, area := a\<rparr>)
     = (if calculateAdaptiveSizeScore (str ''80'') a > 0
        then Inr \<lparr>listing = blankListing\<lparr>listing_id := i, area := a\<rparr>,
                  score = calculateAdaptiveSizeScore (str ''80'') a,
                  matchedFeatures = [str ''size_match'']\<rparr>
        else Inr \<lparr>listing = blankListing\<lparr>listing_id := i, area := a\<rparr>, score = 0,
                  matchedFeatures = []\<rparr>)"
  by (simp add: calculateAdaptiveScore_def Let_def blankListing_def defaultLearningData_def
          defaultFeatureWeights_def map_get_def or_default_def value_or_default_def addFeature_def
          getLearnedTypeKeywords_def toLowerCase_def lower_unit_def baseKeywords_def
          calculateAdaptivePriceScore_def priceWords_def is_digit_def parseInt_def
          calculateFeatureScore_def calculateContextualScore_def calculateSemanticSimilarity_def
          is_space_def)

lemma sizes_for_80:
  "calculateAdaptiveSizeScore (str ''80'') 300 = 0"
  "calculateAdaptiveSizeScore (str ''80'') 120 = 20"
  "calculateAdaptiveSizeScore (str ''80'') 85 = 40"
  by (simp_all add: calculateAdaptiveSizeScore_def is_digit_def parseInt_def
        getLearnedSizePreferences_def)

theorem ranking_of_nonempty_query_witness:
  "trim (toLowerCase (str ''80'')) \<noteq> []
   \<and> ordinaryType (listingA\<lparr>area := 300\<rparr>)
   \<and> ordinaryType (listingB\<lparr>area := 120\<rparr>)
   \<and> ordinaryType (listingA\<lparr>area := 85\<rparr>)
   \<and> fst (search freshEngine (str ''80'')
             [listingA\<lparr>area := 300\<rparr>, listingB\<lparr>area := 120\<rparr>, listingA\<lparr>area := 85\<rparr>])
       = Inr [listingA\<lparr>area := 85\<rparr>, listingB\<lparr>area := 120\<rparr>]
   \<and> sorted_wrt (\<lambda>a b. rankingScore (learningData freshEngine) (trim (toLowerCase (str ''80''))) a
                        \<ge> rankingScore (learningData freshEngine) (trim (toLowerCase (str ''80''))) b)
        [listingA\<lparr>area := 85\<rparr>, listingB\<lparr>area := 120\<rparr>]"
proof -
  let ?S = "[listingA\<lparr>area := 300\<rparr>, listingB\<lparr>area := 120\<rparr>, listingA\<lparr>area := 85\<rparr>]"
  have h1: "trim (toLowerCase (str ''80'')) \<noteq> []"
    by (simp add: toLowerCase_def lower_unit_def trim_def is_space_def)
  have h2: "\<forall>l \<in> set ?S. ordinaryType l"
    by (simp add: ordinaryType_def listingA_def listingB_def blankListing_def toLowerCase_def)
  have nq: "trim (toLowerCase (str ''80'')) = str ''80''"
    by (simp add: toLowerCase_def lower_unit_def trim_def is_space_def)
  have ld: "learningData freshEngine = defaultLearningData"
    by (simp add: freshEngine_def newEngine_def loadLearningData_def)
  have s1: "calculateAdaptiveScore defaultLearningData (str ''80'') (listingA\<lparr>area := 300\<rparr>)
            = Inr \<lparr>listing = listingA\<lparr>area := 300\<rparr>, score = 0, matchedFeatures = []\<rparr>"
    using score_of_query_80[of 300 "str ''a''"] by (simp add: listingA_def sizes_for_80[simplified])
  have s2: "calculateAdaptiveScore defaultLearningData (str ''80'') (listingB\<lparr>area := 120\<rparr>)
            = Inr \<lparr>listing = listingB\<lparr>area := 120\<rparr>, score = 20,
                   matchedFeatures = [str ''size_match'']\<rparr>"
    using score_of_query_80[of 120 "str ''b''"] by (simp add: listingB_def sizes_for_80[simplified])
  have s3: "calculateAdaptiveScore defaultLearningData (str ''80'') (listingA\<lparr>area := 85\<rparr>)
            = Inr \<lparr>listing = listingA\<lparr>area := 85\<rparr>, score = 40,
                   matchedFeatures = [str ''size_match'']\<rparr>"
    using score_of_query_80[of 85 "str ''a''"] by (simp add: listingA_def sizes_for_80[simplified])
  have h3: "fst (search freshEngine (str ''80'') ?S)
            = Inr [listingA\<lparr>area := 85\<rparr>, listingB\<lparr>area := 120\<rparr>]"
    unfolding search_def Let_def nq
    by (simp add: ld s1[simplified] s2[simplified] s3[simplified])
       (simp add: applyMLRanking_def array_sort_def rankingComparator_def finalScore_def
          calculateTypeBonus_def calculatePopularityScore_def defaultLearningData_def
          map_get_def or_default_def value_or_default_def)
  from ranking_of_nonempty_query [OF h1, of ?S freshEngine
         "[listingA\<lparr>area := 85\<rparr>, listingB\<lparr>area := 120\<rparr>]"] h1 h2 h3
  show ?thesis by simp
qed


end
